theory Spec2Isabelle
  imports Main "HOL-Library.Word"
begin

section \<open>Go values shared by the client and the resource\<close>

text \<open>
  A \<^verbatim>\<open>uuid.UUID\<close> is a 16-byte array, a \<^verbatim>\<open>time.Time\<close> an instant, a
  \<^verbatim>\<open>context.Context\<close> an opaque token handed in by the caller.
\<close>

type_synonym uuid = "128 word"
type_synonym go_time = int
type_synonym go_context = nat

text \<open>
  Go errors: a leaf error with its message, or \<^verbatim>\<open>fmt.Errorf(prefix + "%w", err)\<close>, which
  wraps \<open>err\<close> and prints the prefix followed by the message of \<open>err\<close>.
\<close>

datatype go_error = ErrorNew string | ErrorWrap string go_error

fun error_Error :: "go_error \<Rightarrow> string" where
  "error_Error (ErrorNew s) = s"
| "error_Error (ErrorWrap p e) = p @ error_Error e"

text \<open>A run of Go code either returns or panics.\<close>

datatype panic = NilPointerDereference | IndexOutOfRange

datatype 'a outcome = Returned 'a | Panicked panic

text \<open>
  \<^verbatim>\<open>strings.Split(s, sep)\<close> for a one-character separator: the pieces of \<open>s\<close> between
  the occurrences of \<open>sep\<close>; \<open>cur\<close> is the piece being read.
\<close>

fun split_from :: "string \<Rightarrow> char \<Rightarrow> string \<Rightarrow> string list" where
  "split_from cur sep [] = [cur]"
| "split_from cur sep (c # cs) =
     (if c = sep then cur # split_from [] sep cs else split_from (cur @ [c]) sep cs)"

definition strings_Split :: "string \<Rightarrow> char \<Rightarrow> string list" where
  "strings_Split s sep = split_from [] sep s"

section \<open>Terraform plugin framework values\<close>

text \<open>A framework attribute value is null, unknown or known.\<close>

datatype 'a tfval = Null | Unknown | Known 'a

definition IsNull :: "'a tfval \<Rightarrow> bool" where
  "IsNull v = (case v of Null \<Rightarrow> True | _ \<Rightarrow> False)"

definition ValueString :: "string tfval \<Rightarrow> string" where
  "ValueString v = (case v of Known s \<Rightarrow> s | _ \<Rightarrow> [])"

definition ValueBool :: "bool tfval \<Rightarrow> bool" where
  "ValueBool v = (case v of Known b \<Rightarrow> b | _ \<Rightarrow> False)"

datatype severity = SeverityError | SeverityWarning

datatype diagnostic =
  Diagnostic (Severity: severity) (Summary: string) (Detail: string) (AttrPath: "string option")

definition NewErrorDiagnostic :: "string \<Rightarrow> string \<Rightarrow> diagnostic" where
  "NewErrorDiagnostic summary detail = Diagnostic SeverityError summary detail None"

definition NewAttributeErrorDiagnostic :: "string \<Rightarrow> string \<Rightarrow> string \<Rightarrow> diagnostic" where
  "NewAttributeErrorDiagnostic p summary detail = Diagnostic SeverityError summary detail (Some p)"

text \<open>\<^verbatim>\<open>Diagnostics.Append\<close> skips a diagnostic that the collection already contains.\<close>

fun Append :: "diagnostic list \<Rightarrow> diagnostic list \<Rightarrow> diagnostic list" where
  "Append diags [] = diags"
| "Append diags (d # ds) = Append (if d \<in> set diags then diags else diags @ [d]) ds"

definition AddError :: "diagnostic list \<Rightarrow> string \<Rightarrow> string \<Rightarrow> diagnostic list" where
  "AddError diags summary detail = Append diags [NewErrorDiagnostic summary detail]"

definition AddAttributeError ::
  "diagnostic list \<Rightarrow> string \<Rightarrow> string \<Rightarrow> string \<Rightarrow> diagnostic list" where
  "AddAttributeError diags p summary detail =
     Append diags [NewAttributeErrorDiagnostic p summary detail]"

definition HasError :: "diagnostic list \<Rightarrow> bool" where
  "HasError diags = list_ex (\<lambda>d. Severity d = SeverityError) diags"

section \<open>The deployment resource model\<close>

text \<open>
  \<^verbatim>\<open>DeploymentResourceModel\<close>. The schema declares every attribute but
  \<open>paused\<close>, \<open>enforce_parameter_schema\<close> and \<open>tags\<close> as a string attribute (the
  custom UUID, timestamp and normalized-JSON types are string types), so those fields hold
  string values.
\<close>

type_synonym tf_list = "string tfval list tfval"

record DeploymentResourceModel =
  m_ID :: "string tfval"
  m_Created :: "string tfval"
  m_Updated :: "string tfval"
  m_AccountID :: "string tfval"
  m_WorkspaceID :: "string tfval"
  m_Description :: "string tfval"
  m_EnforceParameterSchema :: "bool tfval"
  m_Entrypoint :: "string tfval"
  m_FlowID :: "string tfval"
  m_ManifestPath :: "string tfval"
  m_Name :: "string tfval"
  m_Parameters :: "string tfval"
  m_Path :: "string tfval"
  m_Paused :: "bool tfval"
  m_Tags :: tf_list
  m_Version :: "string tfval"
  m_WorkPoolName :: "string tfval"
  m_WorkQueueName :: "string tfval"

text \<open>
  The response of an entrypoint: the diagnostics collected so far and the state
  (\<open>None\<close> while no state object exists).
\<close>

record tf_response =
  Diagnostics :: "diagnostic list"
  State :: "DeploymentResourceModel option"

definition null_model :: DeploymentResourceModel where
  "null_model =
     \<lparr>m_ID = Null, m_Created = Null, m_Updated = Null, m_AccountID = Null,
      m_WorkspaceID = Null, m_Description = Null, m_EnforceParameterSchema = Null,
      m_Entrypoint = Null, m_FlowID = Null, m_ManifestPath = Null, m_Name = Null,
      m_Parameters = Null, m_Path = Null, m_Paused = Null, m_Tags = Null, m_Version = Null,
      m_WorkPoolName = Null, m_WorkQueueName = Null\<rparr>"

text \<open>
  \<^verbatim>\<open>State.SetAttribute(ctx, path.Root(name), value)\<close> with a Go string: the two root
  paths the resource writes are string attributes of the schema, so the write succeeds and
  creates the state object when there is none; any other path is not an attribute the
  resource writes and yields an error diagnostic.
\<close>

definition State_SetAttribute ::
  "DeploymentResourceModel option \<Rightarrow> string \<Rightarrow> string
     \<Rightarrow> diagnostic list \<times> DeploymentResourceModel option" where
  "State_SetAttribute st p v =
     (let m = (case st of None \<Rightarrow> null_model | Some m \<Rightarrow> m)
      in if p = ''id'' then ([], Some (m\<lparr>m_ID := Known v\<rparr>))
         else if p = ''workspace_id'' then ([], Some (m\<lparr>m_WorkspaceID := Known v\<rparr>))
         else ([NewAttributeErrorDiagnostic p ''State Write Error'' ''unsupported path''], st))"

section \<open>API payloads and the deployments client\<close>

text \<open>A decoded JSON value, the \<^verbatim>\<open>interface{}\<close> of a \<^verbatim>\<open>map[string]interface{}\<close>.\<close>

datatype json =
  JNull | JBool bool | JNumber int | JString string | JArray "json list"
| JObject "(string \<times> json) list"

type_synonym parameters = "(string \<times> json) list"

text \<open>
  \<^verbatim>\<open>api.Deployment\<close>, \<^verbatim>\<open>api.DeploymentCreate\<close> and \<^verbatim>\<open>api.DeploymentUpdate\<close>, with the
  fields the resource reads and writes; \<open>Created\<close> and \<open>Updated\<close> are pointers.
\<close>

record Deployment =
  d_ID :: uuid
  d_Created :: "go_time option"
  d_Updated :: "go_time option"
  d_Description :: string
  d_EnforceParameterSchema :: bool
  d_Entrypoint :: string
  d_FlowID :: uuid
  d_ManifestPath :: string
  d_Name :: string
  d_Parameters :: parameters
  d_Path :: string
  d_Paused :: bool
  d_Tags :: "string list"
  d_Version :: string
  d_WorkPoolName :: string
  d_WorkQueueName :: string

record DeploymentCreate =
  dc_Description :: string
  dc_EnforceParameterSchema :: bool
  dc_Entrypoint :: string
  dc_FlowID :: uuid
  dc_ManifestPath :: string
  dc_Name :: string
  dc_Parameters :: parameters
  dc_Path :: string
  dc_Paused :: bool
  dc_Tags :: "string list"
  dc_Version :: string
  dc_WorkPoolName :: string
  dc_WorkQueueName :: string

record DeploymentUpdate =
  du_Description :: string
  du_EnforceParameterSchema :: bool
  du_Entrypoint :: string
  du_ManifestPath :: string
  du_Parameters :: parameters
  du_Path :: string
  du_Paused :: bool
  du_Tags :: "string list"
  du_Version :: string
  du_WorkPoolName :: string
  du_WorkQueueName :: string

text \<open>
  \<^verbatim>\<open>api.DeploymentsClient\<close> is an interface: each method is a function of the remote
  system's state \<open>'s\<close> that returns Go's pair of results (a possibly nil pointer, a
  possibly nil error) and the next remote state.
\<close>

record 's DeploymentsClient =
  dcl_Create :: "go_context \<Rightarrow> DeploymentCreate \<Rightarrow> 's
                   \<Rightarrow> (Deployment option \<times> go_error option) \<times> 's"
  dcl_Get :: "go_context \<Rightarrow> uuid \<Rightarrow> 's \<Rightarrow> (Deployment option \<times> go_error option) \<times> 's"
  dcl_Update :: "go_context \<Rightarrow> uuid \<Rightarrow> DeploymentUpdate \<Rightarrow> 's \<Rightarrow> go_error option \<times> 's"
  dcl_Delete :: "go_context \<Rightarrow> uuid \<Rightarrow> 's \<Rightarrow> go_error option \<times> 's"

text \<open>
  \<^verbatim>\<open>api.PrefectClient\<close>: \<open>Deployments(accountID, workspaceID)\<close> returns a client
  (an interface value, possibly nil) and an error.
\<close>

record 's PrefectClient =
  pc_Deployments :: "uuid \<Rightarrow> uuid \<Rightarrow> 's DeploymentsClient option \<times> go_error option"

text \<open>\<^verbatim>\<open>DeploymentResource\<close>: the client is nil until \<open>Configure\<close> has stored one.\<close>

record 's DeploymentResource =
  client :: "'s PrefectClient option"

text \<open>
  Every call of a client method is recorded, in order, with its arguments; the world is
  the remote state together with this record.
\<close>

datatype api_call =
  CallCreate go_context DeploymentCreate
| CallGet go_context uuid
| CallUpdate go_context uuid DeploymentUpdate
| CallDelete go_context uuid

record 's world =
  server :: 's
  calls :: "api_call list"

definition client_Create ::
  "'s DeploymentsClient \<Rightarrow> go_context \<Rightarrow> DeploymentCreate \<Rightarrow> 's world
     \<Rightarrow> (Deployment option \<times> go_error option) \<times> 's world" where
  "client_Create c ctx payload w =
     (case dcl_Create c ctx payload (server w) of
        (res, s') \<Rightarrow> (res, \<lparr>server = s', calls = calls w @ [CallCreate ctx payload]\<rparr>))"

definition client_Get ::
  "'s DeploymentsClient \<Rightarrow> go_context \<Rightarrow> uuid \<Rightarrow> 's world
     \<Rightarrow> (Deployment option \<times> go_error option) \<times> 's world" where
  "client_Get c ctx deploymentID w =
     (case dcl_Get c ctx deploymentID (server w) of
        (res, s') \<Rightarrow> (res, \<lparr>server = s', calls = calls w @ [CallGet ctx deploymentID]\<rparr>))"

definition client_Update ::
  "'s DeploymentsClient \<Rightarrow> go_context \<Rightarrow> uuid \<Rightarrow> DeploymentUpdate \<Rightarrow> 's world
     \<Rightarrow> go_error option \<times> 's world" where
  "client_Update c ctx deploymentID payload w =
     (case dcl_Update c ctx deploymentID payload (server w) of
        (res, s') \<Rightarrow>
          (res, \<lparr>server = s', calls = calls w @ [CallUpdate ctx deploymentID payload]\<rparr>))"

definition client_Delete ::
  "'s DeploymentsClient \<Rightarrow> go_context \<Rightarrow> uuid \<Rightarrow> 's world \<Rightarrow> go_error option \<times> 's world" where
  "client_Delete c ctx deploymentID w =
     (case dcl_Delete c ctx deploymentID (server w) of
        (res, s') \<Rightarrow> (res, \<lparr>server = s', calls = calls w @ [CallDelete ctx deploymentID]\<rparr>))"

section \<open>Library functions the resource calls\<close>

text \<open>
  The functions of \<^verbatim>\<open>github.com/google/uuid\<close>, \<^verbatim>\<open>encoding/json\<close>, \<^verbatim>\<open>fmt\<close>, the plugin
  framework and the provider's \<^verbatim>\<open>customtypes\<close> and \<^verbatim>\<open>helpers\<close> packages are not part of
  the two source files; the resource is a function of them.
  \<^item> \<open>uuid_Parse\<close>, \<open>uuid_String\<close>: \<^verbatim>\<open>uuid.Parse\<close> and \<^verbatim>\<open>UUID.String\<close>;
  \<^item> \<open>fmt_q\<close>: the \<^verbatim>\<open>%q\<close> verb of \<^verbatim>\<open>fmt.Sprintf\<close> on a string;
  \<^item> \<open>json_Marshal\<close>: \<^verbatim>\<open>json.Marshal\<close> on a parameters map;
  \<^item> \<open>Normalized_Unmarshal\<close>: \<^verbatim>\<open>jsontypes.Normalized.Unmarshal\<close>, its diagnostics and
    the decoded map;
  \<^item> \<open>List_ElementsAs\<close>: \<^verbatim>\<open>types.List.ElementsAs\<close> into a string slice;
  \<^item> \<open>types_ListValueFrom\<close>: \<^verbatim>\<open>types.ListValueFrom\<close> on a string slice;
  \<^item> \<open>NewTimestampPointerValue\<close>, \<open>NewUUIDValue\<close>, \<open>ValueUUID\<close>: the constructors and
    the accessor of \<^verbatim>\<open>customtypes\<close>;
  \<^item> \<open>ParseUUIDError_text\<close>, \<open>SerializeDataError_text\<close>: the summary and detail that
    the two \<^verbatim>\<open>helpers\<close> diagnostics print.
\<close>

record lib =
  uuid_Parse :: "string \<Rightarrow> go_error + uuid"
  uuid_String :: "uuid \<Rightarrow> string"
  fmt_q :: "string \<Rightarrow> string"
  json_Marshal :: "parameters \<Rightarrow> go_error + string"
  Normalized_Unmarshal :: "string tfval \<Rightarrow> diagnostic list \<times> parameters"
  List_ElementsAs :: "tf_list \<Rightarrow> diagnostic list \<times> string list"
  types_ListValueFrom :: "string list \<Rightarrow> tf_list \<times> diagnostic list"
  NewTimestampPointerValue :: "go_time option \<Rightarrow> string tfval"
  NewUUIDValue :: "uuid \<Rightarrow> string tfval"
  ValueUUID :: "string tfval \<Rightarrow> uuid"
  ParseUUIDError_text :: "string \<Rightarrow> go_error \<Rightarrow> string \<times> string"
  SerializeDataError_text :: "string \<Rightarrow> string \<Rightarrow> go_error \<Rightarrow> string \<times> string"

text \<open>
  Modelled from the spec: \<^verbatim>\<open>helpers.ParseUUIDErrorDiagnostic\<close> and
  \<^verbatim>\<open>helpers.SerializeDataErrorDiagnostic\<close> are not under src/. The spec has errors
  "surfaced verbatim as user-facing diagnostics", so each builds an error diagnostic; its two
  texts are taken from the library record.
\<close>

definition ParseUUIDErrorDiagnostic :: "lib \<Rightarrow> string \<Rightarrow> go_error \<Rightarrow> diagnostic" where
  "ParseUUIDErrorDiagnostic L resourceName err =
     (case ParseUUIDError_text L resourceName err of
        (summary, detail) \<Rightarrow> NewErrorDiagnostic summary detail)"

definition SerializeDataErrorDiagnostic ::
  "lib \<Rightarrow> string \<Rightarrow> string \<Rightarrow> go_error \<Rightarrow> diagnostic" where
  "SerializeDataErrorDiagnostic L pathRoot resourceName err =
     (case SerializeDataError_text L pathRoot resourceName err of
        (summary, detail) \<Rightarrow> NewAttributeErrorDiagnostic pathRoot summary detail)"

section \<open>The deployment resource\<close>

text \<open>
  What \<^verbatim>\<open>req.Config.Get\<close>, \<^verbatim>\<open>req.Plan.Get\<close> and \<^verbatim>\<open>req.State.Get\<close> deliver: the
  diagnostics of the decoding and the model they fill in.
\<close>

type_synonym tfsdk_data = "diagnostic list \<times> DeploymentResourceModel"

record CreateRequest =
  cr_Config :: tfsdk_data

record ReadRequest =
  rr_State :: tfsdk_data

record UpdateRequest =
  ur_Plan :: tfsdk_data

record DeleteRequest =
  dr_State :: tfsdk_data

record ImportStateRequest =
  ir_ID :: string

text \<open>
  \<^verbatim>\<open>resp.State.Set(ctx, &model)\<close>: the model has the schema's shape, so the state becomes
  the model and no diagnostic is produced.
\<close>

definition State_Set ::
  "DeploymentResourceModel \<Rightarrow> diagnostic list \<times> DeploymentResourceModel option" where
  "State_Set m = ([], Some m)"

text \<open>The detail of the diagnostic that the four entrypoints add when no client is built.\<close>

definition deployment_client_error_detail :: "go_error \<Rightarrow> string" where
  "deployment_client_error_detail err =
     ''Could not create deployment client, unexpected error: '' @ error_Error err
       @ ''. This is a bug in the provider, please report this to the maintainers.''"

definition add_client_error :: "tf_response \<Rightarrow> go_error option \<Rightarrow> tf_response" where
  "add_client_error resp err =
     (case err of
        None \<Rightarrow> resp
      | Some e \<Rightarrow>
          resp\<lparr>Diagnostics := AddError (Diagnostics resp) ''Error creating deployment client''
                                   (deployment_client_error_detail e)\<rparr>)"

definition add_id_parse_error :: "tf_response \<Rightarrow> go_error \<Rightarrow> tf_response" where
  "add_id_parse_error resp err =
     resp\<lparr>Diagnostics := AddAttributeError (Diagnostics resp) ''id''
              ''Error parsing Deployment ID''
              (''Could not parse deployment ID to UUID, unexpected error: '' @ error_Error err)\<rparr>"

text \<open>
  \<^verbatim>\<open>copyDeploymentToModel\<close>: the first statement dereferences the pointer; the model is
  written through a pointer, so the fields assigned before an early return stay written.
\<close>

definition copyDeploymentToModel ::
  "lib \<Rightarrow> go_context \<Rightarrow> Deployment option \<Rightarrow> DeploymentResourceModel
     \<Rightarrow> (diagnostic list \<times> DeploymentResourceModel) outcome" where
  "copyDeploymentToModel L ctx deployment model =
     (case deployment of
        None \<Rightarrow> Panicked NilPointerDereference
      | Some d \<Rightarrow>
          (let model1 = model
                 \<lparr>m_ID := Known (uuid_String L (d_ID d)),
                  m_Created := NewTimestampPointerValue L (d_Created d),
                  m_Updated := NewTimestampPointerValue L (d_Updated d),
                  m_Description := Known (d_Description d),
                  m_EnforceParameterSchema := Known (d_EnforceParameterSchema d),
                  m_Entrypoint := Known (d_Entrypoint d),
                  m_FlowID := NewUUIDValue L (d_FlowID d),
                  m_ManifestPath := Known (d_ManifestPath d),
                  m_Name := Known (d_Name d),
                  m_Path := Known (d_Path d),
                  m_Paused := Known (d_Paused d),
                  m_Version := Known (d_Version d),
                  m_WorkPoolName := Known (d_WorkPoolName d),
                  m_WorkQueueName := Known (d_WorkQueueName d)\<rparr>
           in case types_ListValueFrom L (d_Tags d) of
                (tags, diags) \<Rightarrow>
                  if HasError diags then Returned (diags, model1)
                  else Returned ([], model1\<lparr>m_Tags := tags\<rparr>)))"

text \<open>\<^verbatim>\<open>DeploymentResource.Create\<close>.\<close>

definition DeploymentCreate_of ::
  "lib \<Rightarrow> DeploymentResourceModel \<Rightarrow> parameters \<Rightarrow> string list \<Rightarrow> DeploymentCreate" where
  "DeploymentCreate_of L plan data tags =
     \<lparr>dc_Description = ValueString (m_Description plan),
      dc_EnforceParameterSchema = ValueBool (m_EnforceParameterSchema plan),
      dc_Entrypoint = ValueString (m_Entrypoint plan),
      dc_FlowID = ValueUUID L (m_FlowID plan),
      dc_ManifestPath = ValueString (m_ManifestPath plan),
      dc_Name = ValueString (m_Name plan),
      dc_Parameters = data,
      dc_Path = ValueString (m_Path plan),
      dc_Paused = ValueBool (m_Paused plan),
      dc_Tags = tags,
      dc_Version = ValueString (m_Version plan),
      dc_WorkPoolName = ValueString (m_WorkPoolName plan),
      dc_WorkQueueName = ValueString (m_WorkQueueName plan)\<rparr>"

definition Create ::
  "lib \<Rightarrow> 's DeploymentResource \<Rightarrow> go_context \<Rightarrow> CreateRequest \<Rightarrow> tf_response \<Rightarrow> 's world
     \<Rightarrow> tf_response outcome \<times> 's world" where
  "Create L r ctx req resp w =
     (case cr_Config req of (diags0, plan) \<Rightarrow>
       (let resp1 = resp\<lparr>Diagnostics := Append (Diagnostics resp) diags0\<rparr> in
        (if HasError (Diagnostics resp1) then (Returned resp1, w)
         else
          (case client r of
             None \<Rightarrow> (Panicked NilPointerDereference, w)
           | Some pc \<Rightarrow>
              (case pc_Deployments pc (ValueUUID L (m_AccountID plan))
                                      (ValueUUID L (m_WorkspaceID plan)) of
                 (cl, err) \<Rightarrow>
                  (let resp2 = add_client_error resp1 err in
                   (case List_ElementsAs L (m_Tags plan) of (tdiags, tags) \<Rightarrow>
                     (let resp3 = resp2\<lparr>Diagnostics := Append (Diagnostics resp2) tdiags\<rparr> in
                      (if HasError (Diagnostics resp3) then (Returned resp3, w)
                       else
                        (case Normalized_Unmarshal L (m_Parameters plan) of (pdiags, data) \<Rightarrow>
                          (let resp4 =
                                 resp3\<lparr>Diagnostics := Append (Diagnostics resp3) pdiags\<rparr> in
                           (if HasError (Diagnostics resp4) then (Returned resp4, w)
                            else
                             (case cl of
                                None \<Rightarrow> (Panicked NilPointerDereference, w)
                              | Some c \<Rightarrow>
                                 (case client_Create c ctx
                                         (DeploymentCreate_of L plan data tags) w of
                                    ((deployment, cerr), w1) \<Rightarrow>
                                     (case cerr of
                                        Some e \<Rightarrow>
                                         (Returned (resp4\<lparr>Diagnostics :=
                                            AddError (Diagnostics resp4)
                                              ''Error creating deployment''
                                              (''Could not create deployment, unexpected error: ''
                                                 @ error_Error e)\<rparr>), w1)
                                      | None \<Rightarrow>
                                         (case copyDeploymentToModel L ctx deployment plan of
                                            Panicked p \<Rightarrow> (Panicked p, w1)
                                          | Returned (cdiags, plan1) \<Rightarrow>
                                             (let resp5 = resp4\<lparr>Diagnostics :=
                                                    Append (Diagnostics resp4) cdiags\<rparr> in
                                              (if HasError (Diagnostics resp5)
                                               then (Returned resp5, w1)
                                               else
                                                (case State_Set plan1 of (sdiags, st) \<Rightarrow>
                                                  (Returned (resp5\<lparr>State := st,
                                                     Diagnostics :=
                                                       Append (Diagnostics resp5) sdiags\<rparr>),
                                                   w1))))))))))))))))))))"

text \<open>
  \<^verbatim>\<open>DeploymentResource.Read\<close>, in two parts: up to the call of \<open>Get\<close>, and
  \<open>Read_refresh\<close> from the check of \<open>err\<close> that follows it. \<open>err\<close> is one variable:
  the error of the client constructor, overwritten by parsing and by \<open>Get\<close>.
\<close>

definition Read_refresh ::
  "lib \<Rightarrow> go_context \<Rightarrow> tf_response \<Rightarrow> DeploymentResourceModel \<Rightarrow> Deployment option
     \<Rightarrow> go_error option \<Rightarrow> tf_response outcome" where
  "Read_refresh L ctx resp model deployment err =
     (case err of
        Some e \<Rightarrow>
          Returned (resp\<lparr>Diagnostics :=
            AddError (Diagnostics resp) ''Error refreshing deployment state''
              (''Could not read Deployment, unexpected error: '' @ error_Error e)\<rparr>)
      | None \<Rightarrow>
          (case copyDeploymentToModel L ctx deployment model of
             Panicked p \<Rightarrow> Panicked p
           | Returned (cdiags, model1) \<Rightarrow>
              (let resp1 = resp\<lparr>Diagnostics := Append (Diagnostics resp) cdiags\<rparr> in
               (if HasError (Diagnostics resp1) then Returned resp1
                else
                 (case deployment of
                    None \<Rightarrow> Panicked NilPointerDereference
                  | Some d \<Rightarrow>
                     (case (case json_Marshal L (d_Parameters d) of
                              Inl merr \<Rightarrow>
                                (resp1\<lparr>Diagnostics := Append (Diagnostics resp1)
                                    [SerializeDataErrorDiagnostic L ''parameters''
                                       ''Deployment parameters'' merr]\<rparr>, [])
                            | Inr byteSlice \<Rightarrow> (resp1, byteSlice)) of
                        (resp2, byteSlice) \<Rightarrow>
                         (let model2 = model1\<lparr>m_Parameters := Known byteSlice\<rparr> in
                          (case State_Set model2 of (sdiags, st) \<Rightarrow>
                            Returned (resp2\<lparr>State := st,
                              Diagnostics := Append (Diagnostics resp2) sdiags\<rparr>)))))))))"

definition Read ::
  "lib \<Rightarrow> 's DeploymentResource \<Rightarrow> go_context \<Rightarrow> ReadRequest \<Rightarrow> tf_response \<Rightarrow> 's world
     \<Rightarrow> tf_response outcome \<times> 's world" where
  "Read L r ctx req resp w =
     (case rr_State req of (diags0, model) \<Rightarrow>
       (let resp1 = resp\<lparr>Diagnostics := Append (Diagnostics resp) diags0\<rparr> in
        (if HasError (Diagnostics resp1) then (Returned resp1, w)
         else
          (case client r of
             None \<Rightarrow> (Panicked NilPointerDereference, w)
           | Some pc \<Rightarrow>
              (case pc_Deployments pc (ValueUUID L (m_AccountID model))
                                      (ValueUUID L (m_WorkspaceID model)) of
                 (cl, err) \<Rightarrow>
                  (let resp2 = add_client_error resp1 err in
                   (if \<not> IsNull (m_ID model) then
                      (case uuid_Parse L (ValueString (m_ID model)) of
                         Inl perr \<Rightarrow> (Returned (add_id_parse_error resp2 perr), w)
                       | Inr deploymentID \<Rightarrow>
                          (case cl of
                             None \<Rightarrow> (Panicked NilPointerDereference, w)
                           | Some c \<Rightarrow>
                              (case client_Get c ctx deploymentID w of
                                 ((deployment, gerr), w1) \<Rightarrow>
                                   (Read_refresh L ctx resp2 model deployment gerr, w1))))
                    else (Read_refresh L ctx resp2 model None err, w))))))))"

text \<open>
  \<^verbatim>\<open>DeploymentResource.Update\<close>: the \<open>Update\<close> call, then a \<open>Get\<close> of the same
  record to refresh the state.
\<close>

definition DeploymentUpdate_of ::
  "DeploymentResourceModel \<Rightarrow> parameters \<Rightarrow> string list \<Rightarrow> DeploymentUpdate" where
  "DeploymentUpdate_of model params tags =
     \<lparr>du_Description = ValueString (m_Description model),
      du_EnforceParameterSchema = ValueBool (m_EnforceParameterSchema model),
      du_Entrypoint = ValueString (m_Entrypoint model),
      du_ManifestPath = ValueString (m_ManifestPath model),
      du_Parameters = params,
      du_Path = ValueString (m_Path model),
      du_Paused = ValueBool (m_Paused model),
      du_Tags = tags,
      du_Version = ValueString (m_Version model),
      du_WorkPoolName = ValueString (m_WorkPoolName model),
      du_WorkQueueName = ValueString (m_WorkQueueName model)\<rparr>"

definition Update_refresh ::
  "lib \<Rightarrow> go_context \<Rightarrow> tf_response \<Rightarrow> DeploymentResourceModel \<Rightarrow> Deployment option
     \<Rightarrow> go_error option \<Rightarrow> tf_response outcome" where
  "Update_refresh L ctx resp model deployment err =
     (case err of
        Some e \<Rightarrow>
          Returned (resp\<lparr>Diagnostics :=
            AddError (Diagnostics resp) ''Error refreshing Deployment state''
              (''Could not read Deployment, unexpected error: '' @ error_Error e)\<rparr>)
      | None \<Rightarrow>
          (case copyDeploymentToModel L ctx deployment model of
             Panicked p \<Rightarrow> Panicked p
           | Returned (cdiags, model1) \<Rightarrow>
              (let resp1 = resp\<lparr>Diagnostics := Append (Diagnostics resp) cdiags\<rparr> in
               (if HasError (Diagnostics resp1) then Returned resp1
                else
                 (case deployment of
                    None \<Rightarrow> Panicked NilPointerDereference
                  | Some d \<Rightarrow>
                     (case json_Marshal L (d_Parameters d) of
                        Inl merr \<Rightarrow>
                          Returned (resp1\<lparr>Diagnostics := Append (Diagnostics resp1)
                            [SerializeDataErrorDiagnostic L ''parameters''
                               ''Deployment parameters'' merr]\<rparr>)
                      | Inr byteSlice \<Rightarrow>
                         (let model2 = model1\<lparr>m_Parameters := Known byteSlice\<rparr> in
                          (case State_Set model2 of (sdiags, st) \<Rightarrow>
                            Returned (resp1\<lparr>State := st,
                              Diagnostics := Append (Diagnostics resp1) sdiags\<rparr>)))))))))"

definition Update ::
  "lib \<Rightarrow> 's DeploymentResource \<Rightarrow> go_context \<Rightarrow> UpdateRequest \<Rightarrow> tf_response \<Rightarrow> 's world
     \<Rightarrow> tf_response outcome \<times> 's world" where
  "Update L r ctx req resp w =
     (case ur_Plan req of (diags0, model) \<Rightarrow>
       (let resp1 = resp\<lparr>Diagnostics := Append (Diagnostics resp) diags0\<rparr> in
        (if HasError (Diagnostics resp1) then (Returned resp1, w)
         else
          (case client r of
             None \<Rightarrow> (Panicked NilPointerDereference, w)
           | Some pc \<Rightarrow>
              (case pc_Deployments pc (ValueUUID L (m_AccountID model))
                                      (ValueUUID L (m_WorkspaceID model)) of
                 (cl, err) \<Rightarrow>
                  (let resp2 = add_client_error resp1 err in
                   (case uuid_Parse L (ValueString (m_ID model)) of
                      Inl perr \<Rightarrow> (Returned (add_id_parse_error resp2 perr), w)
                    | Inr deploymentID \<Rightarrow>
                       (case List_ElementsAs L (m_Tags model) of (tdiags, tags) \<Rightarrow>
                         (let resp3 =
                                resp2\<lparr>Diagnostics := Append (Diagnostics resp2) tdiags\<rparr> in
                          (if HasError (Diagnostics resp3) then (Returned resp3, w)
                           else
                            (case Normalized_Unmarshal L (m_Parameters model) of
                               (pdiags, params) \<Rightarrow>
                                (let resp4 = resp3\<lparr>Diagnostics :=
                                       Append (Diagnostics resp3) pdiags\<rparr> in
                                 (if HasError (Diagnostics resp4) then (Returned resp4, w)
                                  else
                                   (case cl of
                                      None \<Rightarrow> (Panicked NilPointerDereference, w)
                                    | Some c \<Rightarrow>
                                       (case client_Update c ctx deploymentID
                                               (DeploymentUpdate_of model params tags) w of
                                          (uerr, w1) \<Rightarrow>
                                           (case uerr of
                                              Some e \<Rightarrow>
                                               (Returned (resp4\<lparr>Diagnostics :=
                                                  AddError (Diagnostics resp4)
                                                    ''Error updating deployment''
                                                    (''Could not update deployment, unexpected error: ''
                                                       @ error_Error e)\<rparr>), w1)
                                            | None \<Rightarrow>
                                               (case client_Get c ctx deploymentID w1 of
                                                  ((deployment, gerr), w2) \<Rightarrow>
                                                    (Update_refresh L ctx resp4 model
                                                       deployment gerr, w2))))))))))))))))))"

text \<open>\<^verbatim>\<open>DeploymentResource.Delete\<close>.\<close>

definition Delete ::
  "lib \<Rightarrow> 's DeploymentResource \<Rightarrow> go_context \<Rightarrow> DeleteRequest \<Rightarrow> tf_response \<Rightarrow> 's world
     \<Rightarrow> tf_response outcome \<times> 's world" where
  "Delete L r ctx req resp w =
     (case dr_State req of (diags0, state) \<Rightarrow>
       (let resp1 = resp\<lparr>Diagnostics := Append (Diagnostics resp) diags0\<rparr> in
        (if HasError (Diagnostics resp1) then (Returned resp1, w)
         else
          (case client r of
             None \<Rightarrow> (Panicked NilPointerDereference, w)
           | Some pc \<Rightarrow>
              (case pc_Deployments pc (ValueUUID L (m_AccountID state))
                                      (ValueUUID L (m_WorkspaceID state)) of
                 (cl, err) \<Rightarrow>
                  (let resp2 = add_client_error resp1 err in
                   (case uuid_Parse L (ValueString (m_ID state)) of
                      Inl perr \<Rightarrow> (Returned (add_id_parse_error resp2 perr), w)
                    | Inr deploymentID \<Rightarrow>
                       (case cl of
                          None \<Rightarrow> (Panicked NilPointerDereference, w)
                        | Some c \<Rightarrow>
                           (case client_Delete c ctx deploymentID w of
                              (derr, w1) \<Rightarrow>
                               (case derr of
                                  Some e \<Rightarrow>
                                   (Returned (resp2\<lparr>Diagnostics :=
                                      AddError (Diagnostics resp2) ''Error deleting Deployment''
                                        (''Could not delete Deployment, unexpected error: ''
                                           @ error_Error e)\<rparr>), w1)
                                | None \<Rightarrow>
                                   (case State_Set state of (sdiags, st) \<Rightarrow>
                                     (Returned (resp2\<lparr>State := st,
                                        Diagnostics := Append (Diagnostics resp2) sdiags\<rparr>),
                                      w1))))))))))))"

text \<open>
  \<^verbatim>\<open>DeploymentResource.ImportState\<close>. \<open>inputParts[0]\<close> is read without a length
  check, so an empty slice is an index panic; \<open>inputParts[1]\<close> is read only behind a
  length test.
\<close>

definition ImportState ::
  "lib \<Rightarrow> go_context \<Rightarrow> ImportStateRequest \<Rightarrow> tf_response \<Rightarrow> tf_response outcome" where
  "ImportState L ctx req resp =
     (let maxInputCount = 2;
          inputParts = strings_Split (ir_ID req) CHR '',''
      in
       (if length inputParts > maxInputCount then
          Returned (resp\<lparr>Diagnostics :=
            AddError (Diagnostics resp) ''Unexpected Import Identifier''
              (''Expected a maximum of 2 import identifiers, in the form of `id,workspace_id`. Got ''
                 @ fmt_q L (ir_ID req))\<rparr>)
        else if length inputParts = maxInputCount
                  \<and> (inputParts ! 0 = [] \<or> inputParts ! 1 = []) then
          Returned (resp\<lparr>Diagnostics :=
            AddError (Diagnostics resp) ''Unexpected Import Identifier''
              (''Expected non-empty import identifiers, in the form of `id,workspace_id`. Got ''
                 @ fmt_q L (ir_ID req))\<rparr>)
        else
         (case inputParts of
            [] \<Rightarrow> Panicked IndexOutOfRange
          | identifier # rest \<Rightarrow>
             (case State_SetAttribute (State resp) ''id'' identifier of (idiags, st1) \<Rightarrow>
               (let resp1 = resp\<lparr>State := st1,
                                 Diagnostics := Append (Diagnostics resp) idiags\<rparr> in
                (if length inputParts = 2 \<and> inputParts ! 1 \<noteq> [] then
                   (case uuid_Parse L (inputParts ! 1) of
                      Inl err \<Rightarrow>
                        Returned (resp1\<lparr>Diagnostics := Append (Diagnostics resp1)
                          [ParseUUIDErrorDiagnostic L ''Deployment'' err]\<rparr>)
                    | Inr workspaceID \<Rightarrow>
                       (case State_SetAttribute (State resp1) ''workspace_id''
                               (uuid_String L workspaceID) of
                          (wdiags, st2) \<Rightarrow>
                            Returned (resp1\<lparr>State := st2,
                              Diagnostics := Append (Diagnostics resp1) wdiags\<rparr>)))
                 else Returned resp1))))))"

section \<open>The accounts client\<close>

text \<open>
  An \<^verbatim>\<open>http.Request\<close> and an \<^verbatim>\<open>http.Response\<close>, with the fields the client sets and
  reads; \<open>rq_Body = None\<close> is \<^verbatim>\<open>http.NoBody\<close>.
\<close>

record Request =
  rq_ctx :: go_context
  rq_Method :: string
  rq_URL :: string
  rq_Body :: "string option"
  rq_Header :: "(string \<times> string) list"

record Response =
  rs_StatusCode :: int
  rs_Status :: string
  rs_Body :: string

text \<open>
  \<^verbatim>\<open>http.Client\<close>: \<open>Do\<close> sends one request to the remote system \<open>'w\<close> and returns a
  response or a transport error.
\<close>

record 'w http_Client =
  Do :: "Request \<Rightarrow> 'w \<Rightarrow> (go_error + Response) \<times> 'w"

record 'w AccountsClient =
  hc :: "'w http_Client option"
  endpoint :: string
  apiKey :: string

text \<open>
  What the client takes from outside the file: the check of
  \<^verbatim>\<open>http.NewRequestWithContext\<close> on its arguments, the headers that the provider's
  \<^verbatim>\<open>setDefaultHeaders\<close> sets for an API key, and the JSON decoder and encoder for
  \<^verbatim>\<open>api.AccountResponse\<close> (\<open>'a\<close>) and \<^verbatim>\<open>api.AccountUpdate\<close> (\<open>'u\<close>).
\<close>

record ('a, 'u) net =
  NewRequest_error :: "go_context \<Rightarrow> string \<Rightarrow> string \<Rightarrow> go_error option"
  defaultHeaders :: "(string \<times> string) list \<Rightarrow> string \<Rightarrow> (string \<times> string) list"
  json_Decode :: "string \<Rightarrow> go_error + 'a"
  json_Encode :: "'u \<Rightarrow> go_error + string"

text \<open>
  Modelled from the spec: \<^verbatim>\<open>setDefaultHeaders\<close> is not under src/. The spec calls it the
  shared "header-construction helper" of a "JSON over HTTP, bearer-token header" API, so it
  changes the headers of the request and nothing else.
\<close>

definition setDefaultHeaders :: "('a, 'u) net \<Rightarrow> Request \<Rightarrow> string \<Rightarrow> Request" where
  "setDefaultHeaders N req key = req\<lparr>rq_Header := defaultHeaders N (rq_Header req) key\<rparr>"

definition http_NewRequestWithContext ::
  "('a, 'u) net \<Rightarrow> go_context \<Rightarrow> string \<Rightarrow> string \<Rightarrow> string option \<Rightarrow> go_error + Request" where
  "http_NewRequestWithContext N ctx method url body =
     (case NewRequest_error N ctx method url of
        Some err \<Rightarrow> Inl err
      | None \<Rightarrow>
          Inr \<lparr>rq_ctx = ctx, rq_Method = method, rq_URL = url, rq_Body = body, rq_Header = []\<rparr>)"

text \<open>The remote system and the requests sent to it, in order.\<close>

record 'w wire =
  remote :: 'w
  sent :: "Request list"

definition hc_Do ::
  "'w http_Client \<Rightarrow> Request \<Rightarrow> 'w wire \<Rightarrow> (go_error + Response) \<times> 'w wire" where
  "hc_Do h req x =
     (case Do h req (remote x) of (res, r') \<Rightarrow> (res, \<lparr>remote = r', sent = sent x @ [req]\<rparr>))"

definition StatusOK :: int where
  "StatusOK = 200"

definition StatusNoContent :: int where
  "StatusNoContent = 204"

text \<open>\<^verbatim>\<open>AccountsClient.Get\<close>.\<close>

definition AccountsClient_Get ::
  "lib \<Rightarrow> ('a, 'u) net \<Rightarrow> 'w AccountsClient \<Rightarrow> go_context \<Rightarrow> uuid \<Rightarrow> 'w wire
     \<Rightarrow> (go_error + 'a) outcome \<times> 'w wire" where
  "AccountsClient_Get L N c ctx accountID x =
     (case http_NewRequestWithContext N ctx ''GET''
             (endpoint c @ ''/accounts/'' @ uuid_String L accountID) None of
        Inl err \<Rightarrow> (Returned (Inl (ErrorWrap ''error creating request: '' err)), x)
      | Inr req0 \<Rightarrow>
         (let req = setDefaultHeaders N req0 (apiKey c) in
          (case hc c of
             None \<Rightarrow> (Panicked NilPointerDereference, x)
           | Some h \<Rightarrow>
              (case hc_Do h req x of
                 (Inl err, x1) \<Rightarrow> (Returned (Inl (ErrorWrap ''http error: '' err)), x1)
               | (Inr resp, x1) \<Rightarrow>
                  (if rs_StatusCode resp \<noteq> StatusOK then
                     (Returned (Inl (ErrorNew (''status code '' @ rs_Status resp))), x1)
                   else
                    (case json_Decode N (rs_Body resp) of
                       Inl err \<Rightarrow>
                         (Returned (Inl (ErrorWrap ''failed to decode response: '' err)), x1)
                     | Inr account \<Rightarrow> (Returned (Inr account), x1)))))))"

text \<open>\<^verbatim>\<open>AccountsClient.Update\<close>; a nil result is \<open>None\<close>.\<close>

definition AccountsClient_Update ::
  "lib \<Rightarrow> ('a, 'u) net \<Rightarrow> 'w AccountsClient \<Rightarrow> go_context \<Rightarrow> uuid \<Rightarrow> 'u \<Rightarrow> 'w wire
     \<Rightarrow> go_error option outcome \<times> 'w wire" where
  "AccountsClient_Update L N c ctx accountID data x =
     (case json_Encode N data of
        Inl err \<Rightarrow> (Returned (Some (ErrorWrap ''failed to encode data: '' err)), x)
      | Inr buf \<Rightarrow>
         (case http_NewRequestWithContext N ctx ''PATCH''
                 (endpoint c @ ''/accounts/'' @ uuid_String L accountID) (Some buf) of
            Inl err \<Rightarrow> (Returned (Some (ErrorWrap ''error creating request: '' err)), x)
          | Inr req0 \<Rightarrow>
             (let req = setDefaultHeaders N req0 (apiKey c) in
              (case hc c of
                 None \<Rightarrow> (Panicked NilPointerDereference, x)
               | Some h \<Rightarrow>
                  (case hc_Do h req x of
                     (Inl err, x1) \<Rightarrow> (Returned (Some (ErrorWrap ''http error: '' err)), x1)
                   | (Inr resp, x1) \<Rightarrow>
                      (if rs_StatusCode resp \<noteq> StatusOK
                            \<and> rs_StatusCode resp \<noteq> StatusNoContent then
                         (Returned (Some (ErrorNew (''status code '' @ rs_Status resp))), x1)
                       else (Returned None, x1)))))))"

text \<open>\<^verbatim>\<open>AccountsClient.Delete\<close>.\<close>

definition AccountsClient_Delete ::
  "lib \<Rightarrow> ('a, 'u) net \<Rightarrow> 'w AccountsClient \<Rightarrow> go_context \<Rightarrow> uuid \<Rightarrow> 'w wire
     \<Rightarrow> go_error option outcome \<times> 'w wire" where
  "AccountsClient_Delete L N c ctx accountID x =
     (case http_NewRequestWithContext N ctx ''DELETE''
             (endpoint c @ ''/accounts/'' @ uuid_String L accountID) None of
        Inl err \<Rightarrow> (Returned (Some (ErrorWrap ''error creating request: '' err)), x)
      | Inr req0 \<Rightarrow>
         (let req = setDefaultHeaders N req0 (apiKey c) in
          (case hc c of
             None \<Rightarrow> (Panicked NilPointerDereference, x)
           | Some h \<Rightarrow>
              (case hc_Do h req x of
                 (Inl err, x1) \<Rightarrow> (Returned (Some (ErrorWrap ''http error: '' err)), x1)
               | (Inr resp, x1) \<Rightarrow>
                  (if rs_StatusCode resp \<noteq> StatusOK
                        \<and> rs_StatusCode resp \<noteq> StatusNoContent then
                     (Returned (Some (ErrorNew (''status code '' @ rs_Status resp))), x1)
                   else (Returned None, x1))))))"

text \<open>
  The URL and the request that the three methods build for an account: the request of
  \<^verbatim>\<open>http.NewRequestWithContext\<close> with the default headers set.
\<close>

definition accounts_url :: "lib \<Rightarrow> 'w AccountsClient \<Rightarrow> uuid \<Rightarrow> string" where
  "accounts_url L c accountID = endpoint c @ ''/accounts/'' @ uuid_String L accountID"

definition accounts_request ::
  "lib \<Rightarrow> ('a, 'u) net \<Rightarrow> 'w AccountsClient \<Rightarrow> go_context \<Rightarrow> string \<Rightarrow> uuid
     \<Rightarrow> string option \<Rightarrow> Request" where
  "accounts_request L N c ctx method accountID body =
     setDefaultHeaders N
       \<lparr>rq_ctx = ctx, rq_Method = method, rq_URL = accounts_url L c accountID,
        rq_Body = body, rq_Header = []\<rparr> (apiKey c)"

section \<open>A state that matches a response\<close>

text \<open>
  The property of the specification, in its words: the id of the state is the string form
  of the response's id, created and updated are the response's timestamps, the description,
  the schema flag, the entrypoint, the flow id, the manifest path, the name, the path, the
  paused flag, the version, the work pool, the work queue and the tags are the response's,
  and the parameters are the JSON text \<open>js\<close> that serialises the response's parameters.
  Strings and booleans are stored as known values; timestamps, UUIDs and the tag list go
  through the constructors of their attribute types.
\<close>

definition state_matches_response ::
  "lib \<Rightarrow> Deployment \<Rightarrow> string \<Rightarrow> DeploymentResourceModel \<Rightarrow> bool" where
  "state_matches_response L d js m \<longleftrightarrow>
     m_ID m = Known (uuid_String L (d_ID d))
     \<and> m_Created m = NewTimestampPointerValue L (d_Created d)
     \<and> m_Updated m = NewTimestampPointerValue L (d_Updated d)
     \<and> m_Description m = Known (d_Description d)
     \<and> m_EnforceParameterSchema m = Known (d_EnforceParameterSchema d)
     \<and> m_Entrypoint m = Known (d_Entrypoint d)
     \<and> m_FlowID m = NewUUIDValue L (d_FlowID d)
     \<and> m_ManifestPath m = Known (d_ManifestPath d)
     \<and> m_Name m = Known (d_Name d)
     \<and> m_Path m = Known (d_Path d)
     \<and> m_Paused m = Known (d_Paused d)
     \<and> m_Version m = Known (d_Version d)
     \<and> m_WorkPoolName m = Known (d_WorkPoolName d)
     \<and> m_WorkQueueName m = Known (d_WorkQueueName d)
     \<and> m_Tags m = fst (types_ListValueFrom L (d_Tags d))
     \<and> m_Parameters m = Known js"

section \<open>A sample environment\<close>

text \<open>
  Concrete library functions, clients and requests on which the operations can be
  evaluated: a parser that knows one UUID, a remote system that stores at most one
  deployment, a remote system that rejects every call, and a provider client whose
  constructor fails.
\<close>

definition example_uuid :: uuid where
  "example_uuid = 0x6ba7b8109dad11d180b400c04fd430c8"

definition example_uuid_text :: string where
  "example_uuid_text = ''6ba7b810-9dad-11d1-80b4-00c04fd430c8''"

definition example_lib :: lib where
  "example_lib =
     \<lparr>uuid_Parse = (\<lambda>s. if s = example_uuid_text then Inr example_uuid
                         else Inl (ErrorNew ''invalid UUID format'')),
      uuid_String = (\<lambda>u. if u = example_uuid then example_uuid_text
                          else ''00000000-0000-0000-0000-000000000000''),
      fmt_q = (\<lambda>s. [CHR 0x22] @ s @ [CHR 0x22]),
      json_Marshal = (\<lambda>p. if p = [] then Inr ''{}''
                           else Inl (ErrorNew ''json: unsupported value'')),
      Normalized_Unmarshal = (\<lambda>v. if v = Known ''{}'' then ([], [])
                           else ([NewErrorDiagnostic ''Normalized JSON Unmarshal Error''
                                    ''invalid JSON''], [])),
      List_ElementsAs = (\<lambda>l. case l of Known xs \<Rightarrow> ([], map ValueString xs)
                                         | _ \<Rightarrow> ([], [])),
      types_ListValueFrom = (\<lambda>xs. (Known (map Known xs), [])),
      NewTimestampPointerValue = (\<lambda>t. case t of None \<Rightarrow> Null
                                         | Some i \<Rightarrow> Known ''2024-01-01T00:00:00Z''),
      NewUUIDValue = (\<lambda>u. Known (if u = example_uuid then example_uuid_text
                          else ''00000000-0000-0000-0000-000000000000'')),
      ValueUUID = (\<lambda>v. if v = Known example_uuid_text then example_uuid else 0),
      ParseUUIDError_text = (\<lambda>n e. (''Error parsing '' @ n @ '' ID'', error_Error e)),
      SerializeDataError_text = (\<lambda>p n e. (''Failed to serialize '' @ n, error_Error e))\<rparr>"

definition empty_response :: tf_response where
  "empty_response = \<lparr>Diagnostics = [], State = None\<rparr>"

definition example_deployment :: Deployment where
  "example_deployment =
     \<lparr>d_ID = example_uuid, d_Created = Some 1, d_Updated = Some 2,
      d_Description = ''nightly'', d_EnforceParameterSchema = False,
      d_Entrypoint = ''flow.py:main'', d_FlowID = example_uuid, d_ManifestPath = [],
      d_Name = ''etl'', d_Parameters = [], d_Path = ''/opt/flows'', d_Paused = False,
      d_Tags = [''prod''], d_Version = ''1'', d_WorkPoolName = ''pool'',
      d_WorkQueueName = ''default''\<rparr>"

definition example_model :: DeploymentResourceModel where
  "example_model =
     null_model\<lparr>m_ID := Known example_uuid_text, m_Name := Known ''etl'',
       m_FlowID := Known example_uuid_text, m_Parameters := Known ''{}'',
       m_Description := Known ''weekly'', m_Tags := Known [Known ''prod'']\<rparr>"

definition not_found :: go_error where
  "not_found = ErrorNew ''status code 404 Not Found''"

definition example_client :: "Deployment option DeploymentsClient" where
  "example_client =
     \<lparr>dcl_Create = (\<lambda>ctx p s.
        (let d = example_deployment\<lparr>d_Description := dc_Description p, d_Name := dc_Name p,
                   d_Tags := dc_Tags p, d_Parameters := [(''retries'', JNumber 3)]\<rparr>
         in ((Some d, None), Some d))),
      dcl_Get = (\<lambda>ctx u s.
        (case s of
           None \<Rightarrow> ((None, Some not_found), s)
         | Some d \<Rightarrow> if d_ID d = u then ((Some d, None), s)
                     else ((None, Some not_found), s))),
      dcl_Update = (\<lambda>ctx u p s.
        (case s of
           None \<Rightarrow> (Some not_found, s)
         | Some d \<Rightarrow> if d_ID d = u
                     then (None, Some (d\<lparr>d_Description := du_Description p,
                                          d_Tags := du_Tags p\<rparr>))
                     else (Some not_found, s))),
      dcl_Delete = (\<lambda>ctx u s.
        (case s of
           None \<Rightarrow> (Some not_found, s)
         | Some d \<Rightarrow> if d_ID d = u then (None, None) else (Some not_found, s)))\<rparr>"

definition rejecting_client :: "Deployment option DeploymentsClient" where
  "rejecting_client =
     \<lparr>dcl_Create = (\<lambda>ctx p s.
        ((None, Some (ErrorNew ''status code 422 Unprocessable Entity'')), s)),
      dcl_Get = (\<lambda>ctx u s. ((None, Some not_found), s)),
      dcl_Update = (\<lambda>ctx u p s. (Some not_found, s)),
      dcl_Delete = (\<lambda>ctx u s. (Some not_found, s))\<rparr>"

definition example_resource :: "Deployment option DeploymentResource" where
  "example_resource =
     \<lparr>client = Some \<lparr>pc_Deployments = (\<lambda>a w. (Some example_client, None))\<rparr>\<rparr>"

definition rejected_resource :: "Deployment option DeploymentResource" where
  "rejected_resource =
     \<lparr>client = Some \<lparr>pc_Deployments = (\<lambda>a w. (Some rejecting_client, None))\<rparr>\<rparr>"

definition inconsistent_ids :: go_error where
  "inconsistent_ids = ErrorNew ''accountID and workspaceID are inconsistent''"

definition unbuilt_resource :: "Deployment option DeploymentResource" where
  "unbuilt_resource =
     \<lparr>client = Some \<lparr>pc_Deployments = (\<lambda>a w. (None, Some inconsistent_ids))\<rparr>\<rparr>"

definition misbuilt_resource :: "Deployment option DeploymentResource" where
  "misbuilt_resource =
     \<lparr>client = Some \<lparr>pc_Deployments =
        (\<lambda>a w. (Some example_client, Some inconsistent_ids))\<rparr>\<rparr>"

definition example_world :: "Deployment option world" where
  "example_world = \<lparr>server = Some example_deployment, calls = []\<rparr>"

definition example_net :: "(string, string) net" where
  "example_net =
     \<lparr>NewRequest_error = (\<lambda>ctx method url. None),
      defaultHeaders = (\<lambda>hs key. hs @ [(''Authorization'', ''Bearer '' @ key)]),
      json_Decode = (\<lambda>body. if body = ''{}'' then Inr ''account''
                            else Inl (ErrorNew ''unexpected end of JSON input'')),
      json_Encode = (\<lambda>data. Inr data)\<rparr>"

definition answering :: "int \<Rightarrow> string \<Rightarrow> string \<Rightarrow> unit AccountsClient" where
  "answering code status body =
     \<lparr>hc = Some \<lparr>Do = (\<lambda>req r.
              (Inr \<lparr>rs_StatusCode = code, rs_Status = status, rs_Body = body\<rparr>, r))\<rparr>,
      endpoint = ''https://api.example.test'', apiKey = ''key''\<rparr>"

definition empty_wire :: "unit wire" where
  "empty_wire = \<lparr>remote = (), sent = []\<rparr>"

section \<open>Facts about diagnostics and splitting\<close>

lemma split_from_nonempty: "split_from cur sep s \<noteq> []"
  by (induction s arbitrary: cur) auto

lemma strings_Split_nonempty: "strings_Split s sep \<noteq> []"
  by (simp add: strings_Split_def split_from_nonempty)

lemma set_Append: "set (Append ds es) = set ds \<union> set es"
  by (induction es arbitrary: ds) auto

lemma HasError_Append: "HasError (Append ds es) = (HasError ds \<or> HasError es)"
  by (induction es arbitrary: ds) (auto simp: HasError_def list_ex_iff)

lemma HasError_Nil: "\<not> HasError []"
  by (simp add: HasError_def)

lemma HasError_AddError: "HasError (AddError ds s d)"
  unfolding AddError_def HasError_Append by (simp add: HasError_def NewErrorDiagnostic_def)

lemma HasError_AddAttributeError: "HasError (AddAttributeError ds p s d)"
  unfolding AddAttributeError_def HasError_Append
  by (simp add: HasError_def NewAttributeErrorDiagnostic_def)

lemma HasError_ParseUUIDErrorDiagnostic: "HasError [ParseUUIDErrorDiagnostic L n e]"
  by (simp add: ParseUUIDErrorDiagnostic_def HasError_def NewErrorDiagnostic_def
           split: prod.splits)

lemma HasError_SerializeDataErrorDiagnostic: "HasError [SerializeDataErrorDiagnostic L p n e]"
  by (simp add: SerializeDataErrorDiagnostic_def HasError_def NewAttributeErrorDiagnostic_def
           split: prod.splits)

lemma State_add_client_error: "State (add_client_error resp err) = State resp"
  by (cases err) (simp_all add: add_client_error_def)

lemma HasError_add_client_error:
  "HasError (Diagnostics (add_client_error resp err))
     = (HasError (Diagnostics resp) \<or> err \<noteq> None)"
  by (cases err) (simp_all add: add_client_error_def HasError_AddError)

lemma State_add_id_parse_error: "State (add_id_parse_error resp err) = State resp"
  by (simp add: add_id_parse_error_def)

lemma HasError_add_id_parse_error: "HasError (Diagnostics (add_id_parse_error resp err))"
  by (simp add: add_id_parse_error_def HasError_AddAttributeError)

lemma copyDeploymentToModel_keeps:
  "copyDeploymentToModel L ctx deployment model = Returned (diags, model') \<Longrightarrow>
     m_AccountID model' = m_AccountID model \<and> m_WorkspaceID model' = m_WorkspaceID model
     \<and> m_Parameters model' = m_Parameters model"
  by (auto simp: copyDeploymentToModel_def Let_def split: prod.splits if_splits option.splits)

lemma HasError_NewErrorDiagnostic: "HasError [NewErrorDiagnostic s d]"
  by (simp add: HasError_def NewErrorDiagnostic_def)

lemma HasError_NewAttributeErrorDiagnostic: "HasError [NewAttributeErrorDiagnostic p s d]"
  by (simp add: HasError_def NewAttributeErrorDiagnostic_def)


lemma Read_calls:
  "snd (Read L r ctx req resp w) = w
   \<or> (\<exists>u s'. \<not> IsNull (m_ID (snd (rr_State req)))
          \<and> uuid_Parse L (ValueString (m_ID (snd (rr_State req)))) = Inr u
          \<and> snd (Read L r ctx req resp w)
              = \<lparr>server = s', calls = calls w @ [CallGet ctx u]\<rparr>)"
  by (auto simp: Read_def Let_def client_Get_def
           simp del: Append.simps(2)
           split: prod.splits if_splits option.splits sum.splits)

lemma Update_calls:
  "snd (Update L r ctx req resp w) = w
   \<or> (\<exists>u p s'. uuid_Parse L (ValueString (m_ID (snd (ur_Plan req)))) = Inr u
          \<and> (snd (Update L r ctx req resp w)
                = \<lparr>server = s', calls = calls w @ [CallUpdate ctx u p]\<rparr>
              \<or> snd (Update L r ctx req resp w)
                = \<lparr>server = s', calls = calls w @ [CallUpdate ctx u p, CallGet ctx u]\<rparr>))"
  by (auto simp: Update_def Let_def client_Get_def client_Update_def
           simp del: Append.simps(2)
           split: prod.splits if_splits option.splits sum.splits)

lemma Delete_calls:
  "snd (Delete L r ctx req resp w) = w
   \<or> (\<exists>u s'. uuid_Parse L (ValueString (m_ID (snd (dr_State req)))) = Inr u
          \<and> snd (Delete L r ctx req resp w)
              = \<lparr>server = s', calls = calls w @ [CallDelete ctx u]\<rparr>)"
  by (auto simp: Delete_def Let_def client_Delete_def
           simp del: Append.simps(2)
           split: prod.splits if_splits option.splits sum.splits)

text \<open>The equations that evaluate an operation on the sample environment.\<close>

lemmas sample_defs =
  example_resource_def rejected_resource_def unbuilt_resource_def misbuilt_resource_def
  example_client_def rejecting_client_def example_lib_def example_model_def null_model_def
  example_world_def empty_response_def example_deployment_def not_found_def
  inconsistent_ids_def

lemmas step_defs =
  Let_def client_Create_def client_Get_def client_Update_def client_Delete_def
  add_client_error_def add_id_parse_error_def HasError_def ValueString_def ValueBool_def
  IsNull_def State_Set_def copyDeploymentToModel_def DeploymentCreate_of_def
  DeploymentUpdate_of_def AddError_def AddAttributeError_def NewErrorDiagnostic_def
  NewAttributeErrorDiagnostic_def Read_refresh_def Update_refresh_def
  deployment_client_error_detail_def

lemma AccountsClient_Get_sent:
  "snd (AccountsClient_Get L N c ctx accountID x) = x
   \<or> (\<exists>req r'. rq_ctx req = ctx
         \<and> snd (AccountsClient_Get L N c ctx accountID x)
             = \<lparr>remote = r', sent = sent x @ [req]\<rparr>)"
  by (auto simp: AccountsClient_Get_def Let_def hc_Do_def http_NewRequestWithContext_def
                 setDefaultHeaders_def
           split: prod.splits if_splits option.splits sum.splits)

lemma AccountsClient_Update_sent:
  "snd (AccountsClient_Update L N c ctx accountID data x) = x
   \<or> (\<exists>req r'. rq_ctx req = ctx
         \<and> snd (AccountsClient_Update L N c ctx accountID data x)
             = \<lparr>remote = r', sent = sent x @ [req]\<rparr>)"
  by (auto simp: AccountsClient_Update_def Let_def hc_Do_def http_NewRequestWithContext_def
                 setDefaultHeaders_def
           split: prod.splits if_splits option.splits sum.splits)

lemma AccountsClient_Delete_sent:
  "snd (AccountsClient_Delete L N c ctx accountID x) = x
   \<or> (\<exists>req r'. rq_ctx req = ctx
         \<and> snd (AccountsClient_Delete L N c ctx accountID x)
             = \<lparr>remote = r', sent = sent x @ [req]\<rparr>)"
  by (auto simp: AccountsClient_Delete_def Let_def hc_Do_def http_NewRequestWithContext_def
                 setDefaultHeaders_def
           split: prod.splits if_splits option.splits sum.splits)

lemma Read_refresh_diags:
  "Read_refresh L ctx resp model deployment err = Returned resp' \<Longrightarrow>
     set (Diagnostics resp) \<subseteq> set (Diagnostics resp')"
  by (auto simp: Read_refresh_def Let_def set_Append AddError_def State_Set_def
           simp del: Append.simps(2)
           split: option.splits outcome.splits prod.splits if_splits sum.splits)

lemma client_error_added:
  "NewErrorDiagnostic ''Error creating deployment client'' (deployment_client_error_detail e)
     \<in> set (Diagnostics (add_client_error resp (Some e)))"
  by (simp add: add_client_error_def AddError_def set_Append del: Append.simps(2))

lemma copyDeploymentToModel_fields:
  "copyDeploymentToModel L ctx (Some d) model = Returned (diags, m') \<Longrightarrow> \<not> HasError diags \<Longrightarrow>
     state_matches_response L d js (m'\<lparr>m_Parameters := Known js\<rparr>)"
  by (auto simp: copyDeploymentToModel_def Let_def state_matches_response_def
           split: prod.splits if_splits)

lemma Read_refresh_success:
  "Read_refresh L ctx resp model deployment err = Returned resp' \<Longrightarrow>
   \<not> HasError (Diagnostics resp') \<Longrightarrow>
   \<exists>d js m. deployment = Some d \<and> err = None \<and> json_Marshal L (d_Parameters d) = Inr js
      \<and> State resp' = Some m \<and> state_matches_response L d js m"
  by (auto simp: Read_refresh_def Let_def State_Set_def HasError_Append HasError_AddError
                 HasError_SerializeDataErrorDiagnostic
           simp del: Append.simps(2)
           split: option.splits outcome.splits prod.splits if_splits sum.splits
           dest: copyDeploymentToModel_fields)

lemma Update_refresh_success:
  "Update_refresh L ctx resp model deployment err = Returned resp' \<Longrightarrow>
   \<not> HasError (Diagnostics resp') \<Longrightarrow>
   \<exists>d js m. deployment = Some d \<and> err = None \<and> json_Marshal L (d_Parameters d) = Inr js
      \<and> State resp' = Some m \<and> state_matches_response L d js m"
  by (auto simp: Update_refresh_def Let_def State_Set_def HasError_Append HasError_AddError
                 HasError_SerializeDataErrorDiagnostic
           simp del: Append.simps(2)
           split: option.splits outcome.splits prod.splits if_splits sum.splits
           dest: copyDeploymentToModel_fields)

lemma AccountsClient_Get_result:
  assumes "hc c = Some h"
  shows "fst (AccountsClient_Get L N c ctx accountID x) =
     Returned
      (case NewRequest_error N ctx ''GET'' (accounts_url L c accountID) of
         Some err \<Rightarrow> Inl (ErrorWrap ''error creating request: '' err)
       | None \<Rightarrow>
          (case fst (Do h (accounts_request L N c ctx ''GET'' accountID None) (remote x)) of
             Inl err \<Rightarrow> Inl (ErrorWrap ''http error: '' err)
           | Inr resp \<Rightarrow>
              if rs_StatusCode resp \<noteq> 200
              then Inl (ErrorNew (''status code '' @ rs_Status resp))
              else (case json_Decode N (rs_Body resp) of
                      Inl err \<Rightarrow> Inl (ErrorWrap ''failed to decode response: '' err)
                    | Inr account \<Rightarrow> Inr account)))"
  using assms
  by (auto simp: AccountsClient_Get_def Let_def hc_Do_def http_NewRequestWithContext_def
                 accounts_request_def accounts_url_def StatusOK_def
           split: prod.splits option.splits sum.splits)

lemma AccountsClient_Update_result:
  assumes "hc c = Some h"
  shows "fst (AccountsClient_Update L N c ctx accountID data x) =
     Returned
      (case json_Encode N data of
         Inl err \<Rightarrow> Some (ErrorWrap ''failed to encode data: '' err)
       | Inr buf \<Rightarrow>
         (case NewRequest_error N ctx ''PATCH'' (accounts_url L c accountID) of
            Some err \<Rightarrow> Some (ErrorWrap ''error creating request: '' err)
          | None \<Rightarrow>
            (case fst (Do h (accounts_request L N c ctx ''PATCH'' accountID (Some buf))
                         (remote x)) of
               Inl err \<Rightarrow> Some (ErrorWrap ''http error: '' err)
             | Inr resp \<Rightarrow>
                if rs_StatusCode resp \<noteq> 200 \<and> rs_StatusCode resp \<noteq> 204
                then Some (ErrorNew (''status code '' @ rs_Status resp))
                else None)))"
  using assms
  by (auto simp: AccountsClient_Update_def Let_def hc_Do_def http_NewRequestWithContext_def
                 accounts_request_def accounts_url_def StatusOK_def StatusNoContent_def
           split: prod.splits option.splits sum.splits)

lemma AccountsClient_Delete_result:
  assumes "hc c = Some h"
  shows "fst (AccountsClient_Delete L N c ctx accountID x) =
     Returned
      (case NewRequest_error N ctx ''DELETE'' (accounts_url L c accountID) of
         Some err \<Rightarrow> Some (ErrorWrap ''error creating request: '' err)
       | None \<Rightarrow>
          (case fst (Do h (accounts_request L N c ctx ''DELETE'' accountID None) (remote x)) of
             Inl err \<Rightarrow> Some (ErrorWrap ''http error: '' err)
           | Inr resp \<Rightarrow>
              if rs_StatusCode resp \<noteq> 200 \<and> rs_StatusCode resp \<noteq> 204
              then Some (ErrorNew (''status code '' @ rs_Status resp))
              else None))"
  using assms
  by (auto simp: AccountsClient_Delete_def Let_def hc_Do_def http_NewRequestWithContext_def
                 accounts_request_def accounts_url_def StatusOK_def StatusNoContent_def
           split: prod.splits option.splits sum.splits)

section \<open>Importing a deployment\<close>

text \<open>
  Claim C1. For every import identifier, \<open>ImportState\<close> splits it on the comma. More
  than two parts: one error diagnostic is added and the state is left as it was. Exactly
  two parts of which one is empty: the same. Otherwise the state attribute \<open>id\<close> becomes
  the first part; with a second part, that part is parsed as a UUID, a failure adds an
  error diagnostic, and a success sets \<open>workspace_id\<close> to the string form of the
  parsed UUID. The split never yields an empty slice, so the unchecked read of the first
  part cannot panic.
\<close>

theorem ImportState_cases:
  assumes parts: "strings_Split (ir_ID req) CHR '','' = parts"
    and base: "(case State resp of None \<Rightarrow> null_model | Some m \<Rightarrow> m) = base"
  shows "(2 < length parts \<longrightarrow>
            (\<exists>resp'. ImportState L ctx req resp = Returned resp'
               \<and> State resp' = State resp \<and> HasError (Diagnostics resp')
               \<and> (\<exists>detail. Diagnostics resp' =
                     AddError (Diagnostics resp) ''Unexpected Import Identifier'' detail)))
       \<and> (length parts = 2 \<and> (parts ! 0 = [] \<or> parts ! 1 = []) \<longrightarrow>
            (\<exists>resp'. ImportState L ctx req resp = Returned resp'
               \<and> State resp' = State resp \<and> HasError (Diagnostics resp')
               \<and> (\<exists>detail. Diagnostics resp' =
                     AddError (Diagnostics resp) ''Unexpected Import Identifier'' detail)))
       \<and> (length parts = 1 \<longrightarrow>
            ImportState L ctx req resp =
              Returned (resp\<lparr>State := Some (base\<lparr>m_ID := Known (parts ! 0)\<rparr>)\<rparr>))
       \<and> (length parts = 2 \<and> parts ! 0 \<noteq> [] \<and> parts ! 1 \<noteq> [] \<longrightarrow>
            (case uuid_Parse L (parts ! 1) of
               Inl err \<Rightarrow>
                 ImportState L ctx req resp =
                   Returned (resp\<lparr>State := Some (base\<lparr>m_ID := Known (parts ! 0)\<rparr>),
                     Diagnostics := Append (Diagnostics resp)
                       [ParseUUIDErrorDiagnostic L ''Deployment'' err]\<rparr>)
                 \<and> HasError (Append (Diagnostics resp)
                       [ParseUUIDErrorDiagnostic L ''Deployment'' err])
             | Inr workspaceID \<Rightarrow>
                 ImportState L ctx req resp =
                   Returned (resp\<lparr>State := Some (base\<lparr>m_ID := Known (parts ! 0),
                     m_WorkspaceID := Known (uuid_String L workspaceID)\<rparr>)\<rparr>)))
       \<and> 1 \<le> length parts"
proof -
  have "parts \<noteq> []" using parts strings_Split_nonempty by blast
  then obtain p ps where pp: "parts = p # ps" by (cases parts) auto
  show ?thesis
    using parts base pp
    by (auto simp: ImportState_def Let_def State_SetAttribute_def HasError_AddError
                   HasError_Append HasError_ParseUUIDErrorDiagnostic
             simp del: Append.simps(2) split: sum.splits option.splits list.splits)
qed

text \<open>The import of \<open>id,workspace_id\<close> with a valid workspace id sets both attributes.\<close>

theorem ImportState_cases_witness:
  "ImportState example_lib 0 \<lparr>ir_ID = ''dep-1,6ba7b810-9dad-11d1-80b4-00c04fd430c8''\<rparr>
       empty_response =
     Returned (empty_response\<lparr>State := Some (null_model\<lparr>m_ID := Known ''dep-1'',
       m_WorkspaceID := Known ''6ba7b810-9dad-11d1-80b4-00c04fd430c8''\<rparr>)\<rparr>)
   \<and> strings_Split ''dep-1,6ba7b810-9dad-11d1-80b4-00c04fd430c8'' CHR '','' =
       [''dep-1'', ''6ba7b810-9dad-11d1-80b4-00c04fd430c8'']"
proof -
  have s: "strings_Split (ir_ID \<lparr>ir_ID = ''dep-1,6ba7b810-9dad-11d1-80b4-00c04fd430c8''\<rparr>)
             CHR '','' = [''dep-1'', ''6ba7b810-9dad-11d1-80b4-00c04fd430c8'']"
    by (simp add: strings_Split_def)
  have b: "(case State empty_response of None \<Rightarrow> null_model | Some m \<Rightarrow> m) = null_model"
    by (simp add: empty_response_def)
  show ?thesis
    using ImportState_cases [OF s b, of example_lib 0] s
    by (simp add: example_lib_def example_uuid_text_def)
qed

text \<open>
  Claim C4, as stated, fails: an identifier without a comma is stored as the \<open>id\<close>
  whatever it is, and no diagnostic is added; the id is parsed only later, by \<open>Read\<close>.
\<close>

theorem ImportState_unvalidated_id_counterexample:
  "ImportState example_lib 0 \<lparr>ir_ID = ''not-a-uuid''\<rparr> empty_response =
     Returned \<lparr>Diagnostics = [], State = Some (null_model\<lparr>m_ID := Known ''not-a-uuid''\<rparr>)\<rparr>
   \<and> uuid_Parse example_lib ''not-a-uuid'' = Inl (ErrorNew ''invalid UUID format'')"
  by (simp add: ImportState_def strings_Split_def State_SetAttribute_def empty_response_def
        example_lib_def example_uuid_text_def)

text \<open>
  Claim C4, amended. \<open>ImportState\<close> adds an error diagnostic for every identifier
  that splits into more than two parts, or into two parts of which one is empty, or into
  two parts whose second is not a UUID.
\<close>

theorem ImportState_malformed_error:
  assumes "strings_Split (ir_ID req) CHR '','' = parts"
    and "2 < length parts
         \<or> (length parts = 2 \<and> (parts ! 0 = [] \<or> parts ! 1 = []))
         \<or> (length parts = 2 \<and> (\<exists>err. uuid_Parse L (parts ! 1) = Inl err))"
  shows "\<exists>resp'. ImportState L ctx req resp = Returned resp' \<and> HasError (Diagnostics resp')"
proof -
  have "parts \<noteq> []" using assms(1) strings_Split_nonempty by blast
  then obtain p ps where pp: "parts = p # ps" by (cases parts) auto
  show ?thesis
    using assms pp
    by (auto simp: ImportState_def Let_def State_SetAttribute_def HasError_AddError
                   HasError_Append HasError_ParseUUIDErrorDiagnostic
             simp del: Append.simps(2) split: sum.splits option.splits list.splits)
qed

text \<open>An identifier whose workspace part does not parse is reported.\<close>

theorem ImportState_malformed_error_witness:
  "\<exists>resp'. ImportState example_lib 0 \<lparr>ir_ID = ''dep-1,not-a-uuid''\<rparr> empty_response
       = Returned resp' \<and> HasError (Diagnostics resp')"
proof -
  have s: "strings_Split (ir_ID \<lparr>ir_ID = ''dep-1,not-a-uuid''\<rparr>) CHR '','' =
             [''dep-1'', ''not-a-uuid'']"
    by (simp add: strings_Split_def)
  have h: "2 < length [''dep-1'', ''not-a-uuid'']
         \<or> (length [''dep-1'', ''not-a-uuid''] = 2
              \<and> ([''dep-1'', ''not-a-uuid''] ! 0 = [] \<or> [''dep-1'', ''not-a-uuid''] ! 1 = []))
         \<or> (length [''dep-1'', ''not-a-uuid''] = 2
              \<and> (\<exists>err. uuid_Parse example_lib ([''dep-1'', ''not-a-uuid''] ! 1) = Inl err))"
    by (simp add: example_lib_def example_uuid_text_def)
  show ?thesis
    using ImportState_malformed_error [OF s h] by simp
qed

section \<open>Creating a deployment\<close>

text \<open>
  Claim C10. \<open>copyDeploymentToModel\<close> writes only the fields \<open>id\<close>, \<open>created\<close>,
  \<open>updated\<close>, \<open>description\<close>, \<open>enforce_parameter_schema\<close>, \<open>entrypoint\<close>,
  \<open>flow_id\<close>, \<open>manifest_path\<close>, \<open>name\<close>, \<open>path\<close>, \<open>paused\<close>, \<open>version\<close>,
  \<open>work_pool_name\<close>, \<open>work_queue_name\<close> and \<open>tags\<close>: putting the old values of
  these fields back gives the old model, and \<open>account_id\<close>, \<open>workspace_id\<close> and
  \<open>parameters\<close> are as before. Hence a state that \<open>Create\<close> sets holds the planned
  \<open>parameters\<close>, whatever the API answered.
\<close>

theorem copyDeploymentToModel_frame:
  "(copyDeploymentToModel L ctx deployment model = Returned (diags, model') \<longrightarrow>
      m_AccountID model' = m_AccountID model
      \<and> m_WorkspaceID model' = m_WorkspaceID model
      \<and> m_Parameters model' = m_Parameters model
      \<and> model'\<lparr>m_ID := m_ID model, m_Created := m_Created model,
            m_Updated := m_Updated model, m_Description := m_Description model,
            m_EnforceParameterSchema := m_EnforceParameterSchema model,
            m_Entrypoint := m_Entrypoint model, m_FlowID := m_FlowID model,
            m_ManifestPath := m_ManifestPath model, m_Name := m_Name model,
            m_Path := m_Path model, m_Paused := m_Paused model,
            m_Version := m_Version model, m_WorkPoolName := m_WorkPoolName model,
            m_WorkQueueName := m_WorkQueueName model, m_Tags := m_Tags model\<rparr> = model)
   \<and> (Create L r ctx req resp w = (Returned resp', w') \<longrightarrow>
        State resp' = State resp
        \<or> (\<exists>m. State resp' = Some m
              \<and> m_Parameters m = m_Parameters (snd (cr_Config req))
              \<and> m_AccountID m = m_AccountID (snd (cr_Config req))
              \<and> m_WorkspaceID m = m_WorkspaceID (snd (cr_Config req))))"
proof (intro conjI impI)
  assume c: "copyDeploymentToModel L ctx deployment model = Returned (diags, model')"
  then obtain d where d: "deployment = Some d"
    by (cases deployment) (auto simp: copyDeploymentToModel_def)
  from c d show "m_AccountID model' = m_AccountID model"
    and "m_WorkspaceID model' = m_WorkspaceID model"
    and "m_Parameters model' = m_Parameters model"
    using copyDeploymentToModel_keeps by blast+
  from c d show "model'\<lparr>m_ID := m_ID model, m_Created := m_Created model,
            m_Updated := m_Updated model, m_Description := m_Description model,
            m_EnforceParameterSchema := m_EnforceParameterSchema model,
            m_Entrypoint := m_Entrypoint model, m_FlowID := m_FlowID model,
            m_ManifestPath := m_ManifestPath model, m_Name := m_Name model,
            m_Path := m_Path model, m_Paused := m_Paused model,
            m_Version := m_Version model, m_WorkPoolName := m_WorkPoolName model,
            m_WorkQueueName := m_WorkQueueName model, m_Tags := m_Tags model\<rparr> = model"
    by (auto simp: copyDeploymentToModel_def Let_def split: prod.splits if_splits)
next
  assume "Create L r ctx req resp w = (Returned resp', w')"
  then show "State resp' = State resp
        \<or> (\<exists>m. State resp' = Some m
              \<and> m_Parameters m = m_Parameters (snd (cr_Config req))
              \<and> m_AccountID m = m_AccountID (snd (cr_Config req))
              \<and> m_WorkspaceID m = m_WorkspaceID (snd (cr_Config req)))"
    by (auto simp: Create_def Let_def State_Set_def add_client_error_def HasError_Append
                   HasError_AddError
             simp del: Append.simps(2)
             split: prod.splits if_splits option.splits outcome.splits
             dest: copyDeploymentToModel_keeps)
qed

text \<open>
  The sample remote system answers a create with parameters of its own; the state keeps
  the planned ones.
\<close>

theorem copyDeploymentToModel_frame_witness:
  "\<exists>resp' m. fst (Create example_lib example_resource 7 \<lparr>cr_Config = ([], example_model)\<rparr>
                 empty_response example_world) = Returned resp'
     \<and> State resp' = Some m \<and> m_Parameters m = Known ''{}''
     \<and> m_Description m = Known ''weekly''"
proof -
  let ?req = "\<lparr>cr_Config = ([], example_model)\<rparr>"
  obtain out w' where run:
    "Create example_lib example_resource 7 ?req empty_response example_world = (out, w')"
    by (cases "Create example_lib example_resource 7 ?req empty_response example_world")
  have ev: "\<exists>resp' m. out = Returned resp' \<and> State resp' = Some m
              \<and> m_Description m = Known ''weekly''"
    using run
    by (auto simp: Create_def Let_def client_Create_def example_resource_def
          example_client_def example_lib_def example_model_def null_model_def
          example_world_def empty_response_def add_client_error_def HasError_def
          ValueString_def ValueBool_def copyDeploymentToModel_def State_Set_def
          DeploymentCreate_of_def example_deployment_def)
  then obtain resp' m where r: "out = Returned resp'" "State resp' = Some m"
    "m_Description m = Known ''weekly''" by blast
  have "State resp' = State empty_response
        \<or> (\<exists>m. State resp' = Some m
              \<and> m_Parameters m = m_Parameters (snd (cr_Config ?req))
              \<and> m_AccountID m = m_AccountID (snd (cr_Config ?req))
              \<and> m_WorkspaceID m = m_WorkspaceID (snd (cr_Config ?req)))"
    using copyDeploymentToModel_frame [where L = example_lib and ctx = 7
        and r = example_resource and req = ?req and resp = empty_response
        and w = example_world and resp' = resp' and w' = w'] run r(1)
    by simp
  then have "m_Parameters m = Known ''{}''"
    using r(2) by (auto simp: empty_response_def example_model_def)
  then show ?thesis using run r by auto
qed

text \<open>
  Claim C7. If the API call of \<open>Create\<close> returns an error, \<open>Create\<close> returns with an
  error diagnostic that carries the error's message and leaves the state as it was; and
  whenever \<open>Create\<close> changes the state, the API call was made and returned no error.
\<close>

theorem Create_api_error:
  "(client r = Some pc
      \<and> pc_Deployments pc (ValueUUID L (m_AccountID (snd (cr_Config req))))
            (ValueUUID L (m_WorkspaceID (snd (cr_Config req)))) = (Some c, err)
      \<and> Create L r ctx req resp w = (out, w')
      \<and> calls w' = calls w @ [CallCreate ctx payload]
      \<and> dcl_Create c ctx payload (server w) = ((deployment, Some e), s')
    \<longrightarrow> (\<exists>resp'. out = Returned resp' \<and> State resp' = State resp
          \<and> HasError (Diagnostics resp')
          \<and> NewErrorDiagnostic ''Error creating deployment''
               (''Could not create deployment, unexpected error: '' @ error_Error e)
               \<in> set (Diagnostics resp')
          \<and> server w' = s'))
   \<and> (Create L r ctx req resp w = (Returned resp', w') \<and> State resp' \<noteq> State resp
    \<longrightarrow> (\<exists>pc c err payload d.
          client r = Some pc
          \<and> pc_Deployments pc (ValueUUID L (m_AccountID (snd (cr_Config req))))
               (ValueUUID L (m_WorkspaceID (snd (cr_Config req)))) = (Some c, err)
          \<and> calls w' = calls w @ [CallCreate ctx payload]
          \<and> dcl_Create c ctx payload (server w) = ((Some d, None), server w')))"
proof (intro conjI impI)
  assume "client r = Some pc
      \<and> pc_Deployments pc (ValueUUID L (m_AccountID (snd (cr_Config req))))
            (ValueUUID L (m_WorkspaceID (snd (cr_Config req)))) = (Some c, err)
      \<and> Create L r ctx req resp w = (out, w')
      \<and> calls w' = calls w @ [CallCreate ctx payload]
      \<and> dcl_Create c ctx payload (server w) = ((deployment, Some e), s')"
  then show "\<exists>resp'. out = Returned resp' \<and> State resp' = State resp
          \<and> HasError (Diagnostics resp')
          \<and> NewErrorDiagnostic ''Error creating deployment''
               (''Could not create deployment, unexpected error: '' @ error_Error e)
               \<in> set (Diagnostics resp')
          \<and> server w' = s'"
    by (auto simp: Create_def Let_def client_Create_def HasError_Append HasError_AddError
                   set_Append AddError_def State_add_client_error HasError_add_client_error
                   HasError_NewErrorDiagnostic
             simp del: Append.simps(2)
             split: prod.splits if_splits option.splits outcome.splits)
next
  assume "Create L r ctx req resp w = (Returned resp', w') \<and> State resp' \<noteq> State resp"
  then show "\<exists>pc c err payload d.
          client r = Some pc
          \<and> pc_Deployments pc (ValueUUID L (m_AccountID (snd (cr_Config req))))
               (ValueUUID L (m_WorkspaceID (snd (cr_Config req)))) = (Some c, err)
          \<and> calls w' = calls w @ [CallCreate ctx payload]
          \<and> dcl_Create c ctx payload (server w) = ((Some d, None), server w')"
    by (auto simp: Create_def Let_def client_Create_def HasError_Append HasError_AddError
                   copyDeploymentToModel_def State_add_client_error
                   HasError_add_client_error State_Set_def
             simp del: Append.simps(2)
             split: prod.splits if_splits option.splits outcome.splits)
qed

text \<open>A remote system that rejects the create: the error is reported, no state is set.\<close>

theorem Create_api_error_witness:
  "\<exists>resp'. fst (Create example_lib rejected_resource 7 \<lparr>cr_Config = ([], example_model)\<rparr>
                 empty_response example_world) = Returned resp'
     \<and> State resp' = None
     \<and> NewErrorDiagnostic ''Error creating deployment''
          ''Could not create deployment, unexpected error: status code 422 Unprocessable Entity''
          \<in> set (Diagnostics resp')"
proof -
  let ?req = "\<lparr>cr_Config = ([], example_model)\<rparr>"
  let ?p = "DeploymentCreate_of example_lib example_model [] [''prod'']"
  obtain out w' where run:
    "Create example_lib rejected_resource 7 ?req empty_response example_world = (out, w')"
    by (cases "Create example_lib rejected_resource 7 ?req empty_response example_world")
  have w': "calls w' = calls example_world @ [CallCreate 7 ?p]"
    using run
    by (auto simp: Create_def Let_def client_Create_def rejected_resource_def
          rejecting_client_def example_lib_def example_model_def null_model_def
          example_world_def empty_response_def add_client_error_def HasError_def
          ValueString_def AddError_def)
  have "\<exists>resp'. out = Returned resp' \<and> State resp' = State empty_response
          \<and> HasError (Diagnostics resp')
          \<and> NewErrorDiagnostic ''Error creating deployment''
               (''Could not create deployment, unexpected error: ''
                  @ error_Error (ErrorNew ''status code 422 Unprocessable Entity''))
               \<in> set (Diagnostics resp')
          \<and> server w' = server example_world"
    using Create_api_error [of rejected_resource
        "\<lparr>pc_Deployments = (\<lambda>a w. (Some rejecting_client, None))\<rparr>" example_lib ?req
        rejecting_client None 7 empty_response example_world out w' ?p None
        "ErrorNew ''status code 422 Unprocessable Entity''" "server example_world"]
      run w'
    by (simp add: rejected_resource_def rejecting_client_def)
  then show ?thesis
    using run by (auto simp: empty_response_def)
qed

section \<open>Calls per operation\<close>



section \<open>The identifier of the remote record\<close>

text \<open>
  Claim C5, as stated, fails for \<open>Read\<close> of a state whose id is null: the stored id
  string is empty and is no UUID, yet \<open>Read\<close> does not parse it, adds no diagnostic and
  does not return; it goes on to dereference the nil deployment.
\<close>

theorem Read_null_id_unparsed_counterexample:
  "ValueString (m_ID (example_model\<lparr>m_ID := Null\<rparr>)) = []
   \<and> uuid_Parse example_lib (ValueString (m_ID (example_model\<lparr>m_ID := Null\<rparr>)))
       = Inl (ErrorNew ''invalid UUID format'')
   \<and> fst (Read example_lib example_resource 3
              \<lparr>rr_State = ([], example_model\<lparr>m_ID := Null\<rparr>)\<rparr> empty_response example_world)
       = Panicked NilPointerDereference"
  by (simp add: Read_def sample_defs step_defs example_uuid_text_def)

text \<open>
  Claim C5, amended. Every API call that \<open>Read\<close>, \<open>Update\<close> or \<open>Delete\<close> makes
  carries the UUID that the stored id parses to, so a call is only made with a valid UUID.
  \<open>Update\<close> and \<open>Delete\<close>, and \<open>Read\<close> when the stored id is not null, parse the
  id before the call: if the id does not parse (the request having decoded without error
  and the provider client being configured), the operation adds an error diagnostic on
  the attribute \<open>id\<close> and returns with the state and the remote system untouched and
  no call made. \<open>Read\<close> of a state whose id is null makes no call.
\<close>

theorem id_parsed_before_call:
  "(calls (snd (Read L r ctx rreq resp w)) = calls w
      \<or> (\<exists>u. uuid_Parse L (ValueString (m_ID (snd (rr_State rreq)))) = Inr u
            \<and> calls (snd (Read L r ctx rreq resp w)) = calls w @ [CallGet ctx u]))
   \<and> (calls (snd (Update L r ctx ureq resp w)) = calls w
      \<or> (\<exists>u p. uuid_Parse L (ValueString (m_ID (snd (ur_Plan ureq)))) = Inr u
            \<and> (calls (snd (Update L r ctx ureq resp w)) = calls w @ [CallUpdate ctx u p]
                \<or> calls (snd (Update L r ctx ureq resp w))
                     = calls w @ [CallUpdate ctx u p, CallGet ctx u])))
   \<and> (calls (snd (Delete L r ctx dreq resp w)) = calls w
      \<or> (\<exists>u. uuid_Parse L (ValueString (m_ID (snd (dr_State dreq)))) = Inr u
            \<and> calls (snd (Delete L r ctx dreq resp w)) = calls w @ [CallDelete ctx u]))
   \<and> (\<not> HasError (Diagnostics resp) \<and> client r = Some pc
        \<and> uuid_Parse L (ValueString (m_ID model)) = Inl perr
        \<and> pc_Deployments pc (ValueUUID L (m_AccountID model))
             (ValueUUID L (m_WorkspaceID model)) = (cl, err)
        \<and> \<not> HasError diags0
      \<longrightarrow> (\<not> IsNull (m_ID model) \<longrightarrow>
             Read L r ctx \<lparr>rr_State = (diags0, model)\<rparr> resp w
               = (Returned (add_id_parse_error (add_client_error
                    (resp\<lparr>Diagnostics := Append (Diagnostics resp) diags0\<rparr>) err) perr), w))
          \<and> Update L r ctx \<lparr>ur_Plan = (diags0, model)\<rparr> resp w
               = (Returned (add_id_parse_error (add_client_error
                    (resp\<lparr>Diagnostics := Append (Diagnostics resp) diags0\<rparr>) err) perr), w)
          \<and> Delete L r ctx \<lparr>dr_State = (diags0, model)\<rparr> resp w
               = (Returned (add_id_parse_error (add_client_error
                    (resp\<lparr>Diagnostics := Append (Diagnostics resp) diags0\<rparr>) err) perr), w)
          \<and> HasError (Diagnostics (add_id_parse_error (add_client_error
                    (resp\<lparr>Diagnostics := Append (Diagnostics resp) diags0\<rparr>) err) perr))
          \<and> State (add_id_parse_error (add_client_error
                    (resp\<lparr>Diagnostics := Append (Diagnostics resp) diags0\<rparr>) err) perr)
               = State resp
          \<and> NewAttributeErrorDiagnostic ''id'' ''Error parsing Deployment ID''
               (''Could not parse deployment ID to UUID, unexpected error: '' @ error_Error perr)
             \<in> set (Diagnostics (add_id_parse_error (add_client_error
                    (resp\<lparr>Diagnostics := Append (Diagnostics resp) diags0\<rparr>) err) perr)))
   \<and> (IsNull (m_ID (snd (rr_State rreq))) \<longrightarrow> snd (Read L r ctx rreq resp w) = w)"
proof (intro conjI impI)
  show "calls (snd (Read L r ctx rreq resp w)) = calls w
      \<or> (\<exists>u. uuid_Parse L (ValueString (m_ID (snd (rr_State rreq)))) = Inr u
            \<and> calls (snd (Read L r ctx rreq resp w)) = calls w @ [CallGet ctx u])"
    using Read_calls [of L r ctx rreq resp w] by auto
  show "calls (snd (Update L r ctx ureq resp w)) = calls w
      \<or> (\<exists>u p. uuid_Parse L (ValueString (m_ID (snd (ur_Plan ureq)))) = Inr u
            \<and> (calls (snd (Update L r ctx ureq resp w)) = calls w @ [CallUpdate ctx u p]
                \<or> calls (snd (Update L r ctx ureq resp w))
                     = calls w @ [CallUpdate ctx u p, CallGet ctx u]))"
    using Update_calls [of L r ctx ureq resp w] by auto
  show "calls (snd (Delete L r ctx dreq resp w)) = calls w
      \<or> (\<exists>u. uuid_Parse L (ValueString (m_ID (snd (dr_State dreq)))) = Inr u
            \<and> calls (snd (Delete L r ctx dreq resp w)) = calls w @ [CallDelete ctx u])"
    using Delete_calls [of L r ctx dreq resp w] by auto
next
  assume h: "\<not> HasError (Diagnostics resp) \<and> client r = Some pc
        \<and> uuid_Parse L (ValueString (m_ID model)) = Inl perr
        \<and> pc_Deployments pc (ValueUUID L (m_AccountID model))
             (ValueUUID L (m_WorkspaceID model)) = (cl, err)
        \<and> \<not> HasError diags0"
  { assume "\<not> IsNull (m_ID model)"
    with h show "Read L r ctx \<lparr>rr_State = (diags0, model)\<rparr> resp w
               = (Returned (add_id_parse_error (add_client_error
                    (resp\<lparr>Diagnostics := Append (Diagnostics resp) diags0\<rparr>) err) perr), w)"
      by (simp add: Read_def Let_def HasError_Append del: Append.simps(2)) }
  from h show "Update L r ctx \<lparr>ur_Plan = (diags0, model)\<rparr> resp w
               = (Returned (add_id_parse_error (add_client_error
                    (resp\<lparr>Diagnostics := Append (Diagnostics resp) diags0\<rparr>) err) perr), w)"
    by (simp add: Update_def Let_def HasError_Append del: Append.simps(2))
  from h show "Delete L r ctx \<lparr>dr_State = (diags0, model)\<rparr> resp w
               = (Returned (add_id_parse_error (add_client_error
                    (resp\<lparr>Diagnostics := Append (Diagnostics resp) diags0\<rparr>) err) perr), w)"
    by (simp add: Delete_def Let_def HasError_Append del: Append.simps(2))
  show "HasError (Diagnostics (add_id_parse_error (add_client_error
                    (resp\<lparr>Diagnostics := Append (Diagnostics resp) diags0\<rparr>) err) perr))"
    by (rule HasError_add_id_parse_error)
  show "State (add_id_parse_error (add_client_error
                    (resp\<lparr>Diagnostics := Append (Diagnostics resp) diags0\<rparr>) err) perr)
               = State resp"
    by (simp add: State_add_id_parse_error State_add_client_error)
  show "NewAttributeErrorDiagnostic ''id'' ''Error parsing Deployment ID''
               (''Could not parse deployment ID to UUID, unexpected error: '' @ error_Error perr)
             \<in> set (Diagnostics (add_id_parse_error (add_client_error
                    (resp\<lparr>Diagnostics := Append (Diagnostics resp) diags0\<rparr>) err) perr))"
    by (simp add: add_id_parse_error_def AddAttributeError_def set_Append
             del: Append.simps(2))
next
  assume "IsNull (m_ID (snd (rr_State rreq)))"
  then show "snd (Read L r ctx rreq resp w) = w"
    using Read_calls [of L r ctx rreq resp w] by auto
qed

text \<open>A delete with an id that is no UUID reports it and calls nothing.\<close>

theorem id_parsed_before_call_witness:
  "Delete example_lib example_resource 7
       \<lparr>dr_State = ([], example_model\<lparr>m_ID := Known ''not-a-uuid''\<rparr>)\<rparr> empty_response example_world
     = (Returned \<lparr>Diagnostics =
          [NewAttributeErrorDiagnostic ''id'' ''Error parsing Deployment ID''
             ''Could not parse deployment ID to UUID, unexpected error: invalid UUID format''],
          State = None\<rparr>, example_world)"
proof -
  let ?m = "example_model\<lparr>m_ID := Known ''not-a-uuid''\<rparr>"
  have h: "\<not> HasError (Diagnostics empty_response)
        \<and> client example_resource = Some \<lparr>pc_Deployments = (\<lambda>a w. (Some example_client, None))\<rparr>
        \<and> uuid_Parse example_lib (ValueString (m_ID ?m)) = Inl (ErrorNew ''invalid UUID format'')
        \<and> pc_Deployments \<lparr>pc_Deployments = (\<lambda>a w. (Some example_client, None))\<rparr>
             (ValueUUID example_lib (m_AccountID ?m))
             (ValueUUID example_lib (m_WorkspaceID ?m)) = (Some example_client, None)
        \<and> \<not> HasError []"
    by (simp add: sample_defs step_defs example_uuid_text_def)
  show ?thesis
    using id_parsed_before_call [THEN conjunct2, THEN conjunct2, THEN conjunct2,
        THEN conjunct1, rule_format,
        OF h, THEN conjunct2, THEN conjunct2, THEN conjunct1, of 7 example_world]
    by (simp add: add_id_parse_error_def add_client_error_def empty_response_def
          AddAttributeError_def)
qed

section \<open>Reading without an id, and a client that was not built\<close>

text \<open>
  Claim C8, as stated, fails when the client constructor returned an error: \<open>Read\<close> of a
  state with a null id then finds that error in \<open>err\<close>, adds a refresh error and
  returns; \<open>copyDeploymentToModel\<close> is not reached.
\<close>

theorem Read_null_id_client_error_counterexample:
  "Read example_lib unbuilt_resource 7 \<lparr>rr_State = ([], example_model\<lparr>m_ID := Null\<rparr>)\<rparr>
       empty_response example_world
     = (Returned \<lparr>Diagnostics =
          [NewErrorDiagnostic ''Error creating deployment client''
             (deployment_client_error_detail inconsistent_ids),
           NewErrorDiagnostic ''Error refreshing deployment state''
             ''Could not read Deployment, unexpected error: accountID and workspaceID are inconsistent''],
          State = None\<rparr>, example_world)"
  by (simp add: Read_def sample_defs step_defs)

text \<open>
  Claim C8, amended. If \<open>Read\<close> is invoked on a state whose id is null (the state is
  decoded without error and the provider client is configured), no API call is made and
  the deployment pointer stays nil. When the client constructor returned no error,
  \<open>Read\<close> calls \<open>copyDeploymentToModel\<close> on the nil pointer, which dereferences it:
  the nil branch is reachable from \<open>Read\<close>. When the constructor returned an error,
  \<open>Read\<close> adds an \<open>Error refreshing deployment state\<close> diagnostic with the text of
  that error and returns, the state unchanged; the nil pointer is not dereferenced.
\<close>

theorem Read_null_id:
  "\<not> HasError (Diagnostics resp) \<and> \<not> HasError diags0 \<and> client r = Some pc
     \<and> IsNull (m_ID model)
     \<and> pc_Deployments pc (ValueUUID L (m_AccountID model))
          (ValueUUID L (m_WorkspaceID model)) = (cl, err)
   \<longrightarrow> snd (Read L r ctx \<lparr>rr_State = (diags0, model)\<rparr> resp w) = w
       \<and> (err = None \<longrightarrow>
             fst (Read L r ctx \<lparr>rr_State = (diags0, model)\<rparr> resp w)
               = Panicked NilPointerDereference
             \<and> copyDeploymentToModel L ctx None model = Panicked NilPointerDereference)
       \<and> (\<forall>e. err = Some e \<longrightarrow>
             (\<exists>resp'. fst (Read L r ctx \<lparr>rr_State = (diags0, model)\<rparr> resp w) = Returned resp'
                \<and> resp' = resp\<lparr>Diagnostics :=
                      AddError (AddError (Append (Diagnostics resp) diags0)
                                  ''Error creating deployment client''
                                  (deployment_client_error_detail e))
                        ''Error refreshing deployment state''
                        (''Could not read Deployment, unexpected error: '' @ error_Error e)\<rparr>
                \<and> NewErrorDiagnostic ''Error refreshing deployment state''
                      (''Could not read Deployment, unexpected error: '' @ error_Error e)
                    \<in> set (Diagnostics resp')
                \<and> HasError (Diagnostics resp') \<and> State resp' = State resp))"
  by (auto simp: Read_def Read_refresh_def Let_def HasError_Append copyDeploymentToModel_def
                 add_client_error_def HasError_NewErrorDiagnostic AddError_def set_Append
           simp del: Append.simps(2))

text \<open>
  A read of the sample state without its id panics, and calls nothing; with a client
  constructor that fails, it returns with the refresh error instead.
\<close>

theorem Read_null_id_witness:
  "Read example_lib example_resource 7 \<lparr>rr_State = ([], example_model\<lparr>m_ID := Null\<rparr>)\<rparr>
       empty_response example_world
     = (Panicked NilPointerDereference, example_world)
   \<and> (\<exists>resp'. fst (Read example_lib unbuilt_resource 9
                      \<lparr>rr_State = ([], example_model\<lparr>m_ID := Null\<rparr>)\<rparr>
                      empty_response example_world) = Returned resp'
         \<and> NewErrorDiagnostic ''Error refreshing deployment state''
               (''Could not read Deployment, unexpected error: '' @ error_Error inconsistent_ids)
             \<in> set (Diagnostics resp')
         \<and> State resp' = None)"
proof (intro conjI)
  let ?m = "example_model\<lparr>m_ID := Null\<rparr>"
  have h: "\<not> HasError (Diagnostics empty_response) \<and> \<not> HasError []
     \<and> client example_resource = Some \<lparr>pc_Deployments = (\<lambda>a w. (Some example_client, None))\<rparr>
     \<and> IsNull (m_ID ?m)
     \<and> pc_Deployments \<lparr>pc_Deployments = (\<lambda>a w. (Some example_client, None))\<rparr>
          (ValueUUID example_lib (m_AccountID ?m))
          (ValueUUID example_lib (m_WorkspaceID ?m)) = (Some example_client, None)"
    by (simp add: sample_defs step_defs)
  show "Read example_lib example_resource 7 \<lparr>rr_State = ([], ?m)\<rparr>
       empty_response example_world
     = (Panicked NilPointerDereference, example_world)"
    using Read_null_id [where ctx = 7 and w = example_world, THEN mp, OF h]
    by (simp add: prod_eq_iff)
next
  let ?m = "example_model\<lparr>m_ID := Null\<rparr>"
  have h: "\<not> HasError (Diagnostics empty_response) \<and> \<not> HasError []
     \<and> client unbuilt_resource = Some \<lparr>pc_Deployments = (\<lambda>a w. (None, Some inconsistent_ids))\<rparr>
     \<and> IsNull (m_ID ?m)
     \<and> pc_Deployments \<lparr>pc_Deployments = (\<lambda>a w. (None, Some inconsistent_ids))\<rparr>
          (ValueUUID example_lib (m_AccountID ?m))
          (ValueUUID example_lib (m_WorkspaceID ?m)) = (None, Some inconsistent_ids)"
    by (simp add: sample_defs step_defs)
  show "\<exists>resp'. fst (Read example_lib unbuilt_resource 9 \<lparr>rr_State = ([], ?m)\<rparr>
                      empty_response example_world) = Returned resp'
         \<and> NewErrorDiagnostic ''Error refreshing deployment state''
               (''Could not read Deployment, unexpected error: '' @ error_Error inconsistent_ids)
             \<in> set (Diagnostics resp')
         \<and> State resp' = None"
    using Read_null_id [where ctx = 9 and w = example_world, THEN mp, OF h,
        THEN conjunct2, THEN conjunct2, THEN spec, THEN mp, OF refl]
    by (auto simp: empty_response_def)
qed

text \<open>
  Claim C9, as stated, fails for \<open>Read\<close> of a state with a null id: the constructor
  returned a client together with an error, and \<open>Read\<close> neither parses an id nor
  invokes \<open>Get\<close> on that client; it returns with the constructor's error as a refresh
  error.
\<close>

theorem Read_client_error_unused_counterexample:
  "Read example_lib misbuilt_resource 7 \<lparr>rr_State = ([], example_model\<lparr>m_ID := Null\<rparr>)\<rparr>
       empty_response example_world
     = (Returned \<lparr>Diagnostics =
          [NewErrorDiagnostic ''Error creating deployment client''
             (deployment_client_error_detail inconsistent_ids),
           NewErrorDiagnostic ''Error refreshing deployment state''
             ''Could not read Deployment, unexpected error: accountID and workspaceID are inconsistent''],
          State = None\<rparr>, example_world)
   \<and> calls example_world = []
   \<and> pc_Deployments (the (client misbuilt_resource)) 0 0
       = (Some example_client, Some inconsistent_ids)"
  by (simp add: Read_def sample_defs step_defs)

text \<open>
  Claim C9, amended. When the client constructor returns an error (the request is decoded
  without error and the provider client is configured), \<open>Read\<close> and \<open>Delete\<close> add an
  \<open>Error creating deployment client\<close> diagnostic and go on. \<open>Delete\<close> parses the id, and
  so does \<open>Read\<close> when the id is not null; when the id parses, \<open>Get\<close> or \<open>Delete\<close> is
  invoked on the client value that came with the error (a nil value makes that a
  nil-pointer panic). When the id does not parse, the operation returns with the id error
  and has made no call; \<open>Read\<close> of a null id returns with an
  \<open>Error refreshing deployment state\<close> diagnostic and has made no call. Whenever the
  operation returns, the diagnostic of the constructor is among those returned.
\<close>

theorem client_error_does_not_stop:
  "\<not> HasError (Diagnostics resp) \<and> \<not> HasError diags0 \<and> client r = Some pc
     \<and> pc_Deployments pc (ValueUUID L (m_AccountID model))
          (ValueUUID L (m_WorkspaceID model)) = (cl, Some e)
   \<longrightarrow> (uuid_Parse L (ValueString (m_ID model)) = Inr u \<longrightarrow>
          (\<not> IsNull (m_ID model) \<and> cl = None \<longrightarrow>
             Read L r ctx \<lparr>rr_State = (diags0, model)\<rparr> resp w
               = (Panicked NilPointerDereference, w))
          \<and> (\<not> IsNull (m_ID model) \<and> cl = Some c \<longrightarrow>
             snd (Read L r ctx \<lparr>rr_State = (diags0, model)\<rparr> resp w)
               = \<lparr>server = snd (dcl_Get c ctx u (server w)),
                  calls = calls w @ [CallGet ctx u]\<rparr>
             \<and> (fst (Read L r ctx \<lparr>rr_State = (diags0, model)\<rparr> resp w) = Returned resp' \<longrightarrow>
                  NewErrorDiagnostic ''Error creating deployment client''
                    (deployment_client_error_detail e) \<in> set (Diagnostics resp')))
          \<and> (cl = None \<longrightarrow>
             Delete L r ctx \<lparr>dr_State = (diags0, model)\<rparr> resp w
               = (Panicked NilPointerDereference, w))
          \<and> (cl = Some c \<longrightarrow>
             snd (Delete L r ctx \<lparr>dr_State = (diags0, model)\<rparr> resp w)
               = \<lparr>server = snd (dcl_Delete c ctx u (server w)),
                  calls = calls w @ [CallDelete ctx u]\<rparr>
             \<and> (fst (Delete L r ctx \<lparr>dr_State = (diags0, model)\<rparr> resp w) = Returned resp'' \<longrightarrow>
                  NewErrorDiagnostic ''Error creating deployment client''
                    (deployment_client_error_detail e) \<in> set (Diagnostics resp''))))
       \<and> (uuid_Parse L (ValueString (m_ID model)) = Inl perr \<longrightarrow>
          (\<not> IsNull (m_ID model) \<longrightarrow>
             Read L r ctx \<lparr>rr_State = (diags0, model)\<rparr> resp w
               = (Returned (add_id_parse_error (add_client_error
                    (resp\<lparr>Diagnostics := Append (Diagnostics resp) diags0\<rparr>) (Some e)) perr), w))
          \<and> Delete L r ctx \<lparr>dr_State = (diags0, model)\<rparr> resp w
               = (Returned (add_id_parse_error (add_client_error
                    (resp\<lparr>Diagnostics := Append (Diagnostics resp) diags0\<rparr>) (Some e)) perr), w)
          \<and> NewErrorDiagnostic ''Error creating deployment client''
               (deployment_client_error_detail e)
             \<in> set (Diagnostics (add_id_parse_error (add_client_error
                    (resp\<lparr>Diagnostics := Append (Diagnostics resp) diags0\<rparr>) (Some e)) perr))
          \<and> NewAttributeErrorDiagnostic ''id'' ''Error parsing Deployment ID''
               (''Could not parse deployment ID to UUID, unexpected error: '' @ error_Error perr)
             \<in> set (Diagnostics (add_id_parse_error (add_client_error
                    (resp\<lparr>Diagnostics := Append (Diagnostics resp) diags0\<rparr>) (Some e)) perr)))
       \<and> (IsNull (m_ID model) \<longrightarrow>
          (\<exists>resp0. Read L r ctx \<lparr>rr_State = (diags0, model)\<rparr> resp w = (Returned resp0, w)
             \<and> State resp0 = State resp
             \<and> NewErrorDiagnostic ''Error creating deployment client''
                  (deployment_client_error_detail e) \<in> set (Diagnostics resp0)
             \<and> NewErrorDiagnostic ''Error refreshing deployment state''
                  (''Could not read Deployment, unexpected error: '' @ error_Error e)
                \<in> set (Diagnostics resp0)))"
proof (intro impI conjI)
  assume h: "\<not> HasError (Diagnostics resp) \<and> \<not> HasError diags0 \<and> client r = Some pc
     \<and> pc_Deployments pc (ValueUUID L (m_AccountID model))
          (ValueUUID L (m_WorkspaceID model)) = (cl, Some e)"
  { assume p: "uuid_Parse L (ValueString (m_ID model)) = Inr u"
    { assume "\<not> IsNull (m_ID model) \<and> cl = None"
      with h p show "Read L r ctx \<lparr>rr_State = (diags0, model)\<rparr> resp w
              = (Panicked NilPointerDereference, w)"
        by (simp add: Read_def Let_def HasError_Append del: Append.simps(2)) }
    { assume a: "\<not> IsNull (m_ID model) \<and> cl = Some c"
      with h p show "snd (Read L r ctx \<lparr>rr_State = (diags0, model)\<rparr> resp w)
              = \<lparr>server = snd (dcl_Get c ctx u (server w)),
                 calls = calls w @ [CallGet ctx u]\<rparr>"
        by (simp add: Read_def Let_def HasError_Append client_Get_def
                 del: Append.simps(2) split: prod.splits)
      assume "fst (Read L r ctx \<lparr>rr_State = (diags0, model)\<rparr> resp w) = Returned resp'"
      with h p a have "\<exists>d g. Read_refresh L ctx (add_client_error
          (resp\<lparr>Diagnostics := Append (Diagnostics resp) diags0\<rparr>) (Some e)) model d g
            = Returned resp'"
        by (auto simp: Read_def Let_def HasError_Append client_Get_def
                 simp del: Append.simps(2) split: prod.splits)
      then show "NewErrorDiagnostic ''Error creating deployment client''
                   (deployment_client_error_detail e) \<in> set (Diagnostics resp')"
        using Read_refresh_diags client_error_added by blast }
    { assume "cl = None"
      with h p show "Delete L r ctx \<lparr>dr_State = (diags0, model)\<rparr> resp w
              = (Panicked NilPointerDereference, w)"
        by (simp add: Delete_def Let_def HasError_Append del: Append.simps(2)) }
    { assume a: "cl = Some c"
      with h p show "snd (Delete L r ctx \<lparr>dr_State = (diags0, model)\<rparr> resp w)
              = \<lparr>server = snd (dcl_Delete c ctx u (server w)),
                 calls = calls w @ [CallDelete ctx u]\<rparr>"
        by (simp add: Delete_def Let_def HasError_Append client_Delete_def
                 del: Append.simps(2) split: prod.splits option.splits)
      assume "fst (Delete L r ctx \<lparr>dr_State = (diags0, model)\<rparr> resp w) = Returned resp''"
      with h p a show "NewErrorDiagnostic ''Error creating deployment client''
                   (deployment_client_error_detail e) \<in> set (Diagnostics resp'')"
        using client_error_added [of e "resp\<lparr>Diagnostics := Append (Diagnostics resp) diags0\<rparr>"]
        by (auto simp: Delete_def Let_def HasError_Append client_Delete_def State_Set_def
                       set_Append AddError_def
                 simp del: Append.simps(2) split: prod.splits option.splits) } }
  { assume p: "uuid_Parse L (ValueString (m_ID model)) = Inl perr"
    { assume "\<not> IsNull (m_ID model)"
      with h p show "Read L r ctx \<lparr>rr_State = (diags0, model)\<rparr> resp w
               = (Returned (add_id_parse_error (add_client_error
                    (resp\<lparr>Diagnostics := Append (Diagnostics resp) diags0\<rparr>) (Some e)) perr), w)"
        by (simp add: Read_def Let_def HasError_Append del: Append.simps(2)) }
    from h p show "Delete L r ctx \<lparr>dr_State = (diags0, model)\<rparr> resp w
               = (Returned (add_id_parse_error (add_client_error
                    (resp\<lparr>Diagnostics := Append (Diagnostics resp) diags0\<rparr>) (Some e)) perr), w)"
      by (simp add: Delete_def Let_def HasError_Append del: Append.simps(2))
    show "NewErrorDiagnostic ''Error creating deployment client''
               (deployment_client_error_detail e)
             \<in> set (Diagnostics (add_id_parse_error (add_client_error
                    (resp\<lparr>Diagnostics := Append (Diagnostics resp) diags0\<rparr>) (Some e)) perr))"
      using client_error_added [of e "resp\<lparr>Diagnostics := Append (Diagnostics resp) diags0\<rparr>"]
      by (simp add: add_id_parse_error_def AddAttributeError_def set_Append
               del: Append.simps(2))
    show "NewAttributeErrorDiagnostic ''id'' ''Error parsing Deployment ID''
               (''Could not parse deployment ID to UUID, unexpected error: '' @ error_Error perr)
             \<in> set (Diagnostics (add_id_parse_error (add_client_error
                    (resp\<lparr>Diagnostics := Append (Diagnostics resp) diags0\<rparr>) (Some e)) perr))"
      by (simp add: add_id_parse_error_def AddAttributeError_def set_Append
               del: Append.simps(2)) }
  { assume "IsNull (m_ID model)"
    with h show "\<exists>resp0. Read L r ctx \<lparr>rr_State = (diags0, model)\<rparr> resp w = (Returned resp0, w)
             \<and> State resp0 = State resp
             \<and> NewErrorDiagnostic ''Error creating deployment client''
                  (deployment_client_error_detail e) \<in> set (Diagnostics resp0)
             \<and> NewErrorDiagnostic ''Error refreshing deployment state''
                  (''Could not read Deployment, unexpected error: '' @ error_Error e)
                \<in> set (Diagnostics resp0)"
      by (simp add: Read_def Read_refresh_def Let_def HasError_Append add_client_error_def
                    AddError_def set_Append
               del: Append.simps(2)) }
qed

text \<open>
  With a constructor that returns a client and an error, both operations call it; a
  delete of an id that is no UUID returns before that, with both diagnostics.
\<close>

theorem client_error_does_not_stop_witness:
  "calls (snd (Read example_lib misbuilt_resource 7 \<lparr>rr_State = ([], example_model)\<rparr>
                 empty_response example_world)) = [CallGet 7 example_uuid]
   \<and> calls (snd (Delete example_lib misbuilt_resource 7 \<lparr>dr_State = ([], example_model)\<rparr>
                 empty_response example_world)) = [CallDelete 7 example_uuid]
   \<and> Delete example_lib misbuilt_resource 7
         \<lparr>dr_State = ([], example_model\<lparr>m_ID := Known ''not-a-uuid''\<rparr>)\<rparr>
         empty_response example_world
       = (Returned \<lparr>Diagnostics =
            [NewErrorDiagnostic ''Error creating deployment client''
               (deployment_client_error_detail inconsistent_ids),
             NewAttributeErrorDiagnostic ''id'' ''Error parsing Deployment ID''
               ''Could not parse deployment ID to UUID, unexpected error: invalid UUID format''],
            State = None\<rparr>, example_world)"
proof -
  let ?pc = "\<lparr>pc_Deployments = (\<lambda>a w. (Some example_client, Some inconsistent_ids))\<rparr>
               :: Deployment option PrefectClient"
  let ?bad = "example_model\<lparr>m_ID := Known ''not-a-uuid''\<rparr>"
  have h: "\<not> HasError (Diagnostics empty_response) \<and> \<not> HasError []
     \<and> client misbuilt_resource = Some ?pc
     \<and> pc_Deployments ?pc
          (ValueUUID example_lib (m_AccountID example_model))
          (ValueUUID example_lib (m_WorkspaceID example_model))
         = (Some example_client, Some inconsistent_ids)"
    by (simp add: sample_defs step_defs)
  have p: "uuid_Parse example_lib (ValueString (m_ID example_model)) = Inr example_uuid"
    by (simp add: sample_defs step_defs)
  have n: "\<not> IsNull (m_ID example_model) \<and> Some example_client = Some example_client"
    by (simp add: sample_defs step_defs)
  have h': "\<not> HasError (Diagnostics empty_response) \<and> \<not> HasError []
     \<and> client misbuilt_resource = Some ?pc
     \<and> pc_Deployments ?pc
          (ValueUUID example_lib (m_AccountID ?bad))
          (ValueUUID example_lib (m_WorkspaceID ?bad))
         = (Some example_client, Some inconsistent_ids)"
    by (simp add: sample_defs step_defs)
  have p': "uuid_Parse example_lib (ValueString (m_ID ?bad))
              = Inl (ErrorNew ''invalid UUID format'')"
    by (simp add: sample_defs step_defs example_uuid_text_def)
  note t = client_error_does_not_stop [where ctx = 7 and w = example_world
      and c = example_client, THEN mp, OF h, THEN conjunct1, THEN mp, OF p]
  note t' = client_error_does_not_stop [where ctx = 7 and w = example_world,
      THEN mp, OF h', THEN conjunct2, THEN conjunct1, THEN mp, OF p']
  show ?thesis
    using t [THEN conjunct2, THEN conjunct1, THEN mp, OF n, THEN conjunct1]
          t [THEN conjunct2, THEN conjunct2, THEN conjunct2, THEN mp, OF refl, THEN conjunct1]
          t' [THEN conjunct2, THEN conjunct1]
    by (simp add: example_world_def add_id_parse_error_def add_client_error_def
          empty_response_def AddError_def AddAttributeError_def NewErrorDiagnostic_def
          NewAttributeErrorDiagnostic_def inconsistent_ids_def
          deployment_client_error_detail_def)
qed
section \<open>The state after a refresh\<close>

text \<open>
  Claim C2. After a \<open>Read\<close> or an \<open>Update\<close> that returns without an error
  diagnostic, the state is set and matches the deployment that the \<open>Get\<close> call
  returned (for \<open>Update\<close>, the \<open>Get\<close> that follows the \<open>Update\<close> call): id,
  created, updated, description, schema flag, entrypoint, flow id, manifest path, name, path,
  paused, version, work pool, work queue and tags are the response's, and the parameters
  are the JSON serialisation of the response's parameters. Such runs exist: when the
  request decodes, the client is built, the id parses, the calls return no error and
  the tags and parameters of the response convert, \<open>Read\<close> and \<open>Update\<close> return
  without an error diagnostic and with that state.
\<close>

theorem state_matches_response_after_refresh:
  "(Read L r ctx rreq resp w = (Returned resp', w') \<and> \<not> HasError (Diagnostics resp')
    \<longrightarrow> (\<exists>pc c err u d js m.
          client r = Some pc
          \<and> pc_Deployments pc (ValueUUID L (m_AccountID (snd (rr_State rreq))))
               (ValueUUID L (m_WorkspaceID (snd (rr_State rreq)))) = (Some c, err)
          \<and> uuid_Parse L (ValueString (m_ID (snd (rr_State rreq)))) = Inr u
          \<and> dcl_Get c ctx u (server w) = ((Some d, None), server w')
          \<and> json_Marshal L (d_Parameters d) = Inr js
          \<and> State resp' = Some m \<and> state_matches_response L d js m))
   \<and> (Update L r ctx ureq resp w = (Returned resp'', w'') \<and> \<not> HasError (Diagnostics resp'')
    \<longrightarrow> (\<exists>pc c err u p s1 d js m.
          client r = Some pc
          \<and> pc_Deployments pc (ValueUUID L (m_AccountID (snd (ur_Plan ureq))))
               (ValueUUID L (m_WorkspaceID (snd (ur_Plan ureq)))) = (Some c, err)
          \<and> uuid_Parse L (ValueString (m_ID (snd (ur_Plan ureq)))) = Inr u
          \<and> dcl_Update c ctx u p (server w) = (None, s1)
          \<and> dcl_Get c ctx u s1 = ((Some d, None), server w'')
          \<and> json_Marshal L (d_Parameters d) = Inr js
          \<and> State resp'' = Some m \<and> state_matches_response L d js m))
   \<and> (\<not> HasError (Diagnostics resp) \<and> \<not> HasError diags0 \<and> client r = Some pc0
        \<and> pc_Deployments pc0 (ValueUUID L (m_AccountID model))
             (ValueUUID L (m_WorkspaceID model)) = (Some c0, None)
        \<and> \<not> IsNull (m_ID model)
        \<and> uuid_Parse L (ValueString (m_ID model)) = Inr u0
        \<and> dcl_Get c0 ctx u0 (server w) = ((Some d0, None), s0)
        \<and> \<not> HasError (snd (types_ListValueFrom L (d_Tags d0)))
        \<and> json_Marshal L (d_Parameters d0) = Inr js0
    \<longrightarrow> (\<exists>resp0 m0.
          Read L r ctx \<lparr>rr_State = (diags0, model)\<rparr> resp w
            = (Returned resp0, \<lparr>server = s0, calls = calls w @ [CallGet ctx u0]\<rparr>)
          \<and> \<not> HasError (Diagnostics resp0)
          \<and> State resp0 = Some m0 \<and> state_matches_response L d0 js0 m0))
   \<and> (\<not> HasError (Diagnostics resp) \<and> \<not> HasError diags1 \<and> client r = Some pc1
        \<and> pc_Deployments pc1 (ValueUUID L (m_AccountID plan))
             (ValueUUID L (m_WorkspaceID plan)) = (Some c1, None)
        \<and> uuid_Parse L (ValueString (m_ID plan)) = Inr u1
        \<and> List_ElementsAs L (m_Tags plan) = (tdiags, tags) \<and> \<not> HasError tdiags
        \<and> Normalized_Unmarshal L (m_Parameters plan) = (pdiags, params) \<and> \<not> HasError pdiags
        \<and> dcl_Update c1 ctx u1 (DeploymentUpdate_of plan params tags) (server w) = (None, s1)
        \<and> dcl_Get c1 ctx u1 s1 = ((Some d1, None), s2)
        \<and> \<not> HasError (snd (types_ListValueFrom L (d_Tags d1)))
        \<and> json_Marshal L (d_Parameters d1) = Inr js1
    \<longrightarrow> (\<exists>resp1 m1.
          Update L r ctx \<lparr>ur_Plan = (diags1, plan)\<rparr> resp w
            = (Returned resp1,
               \<lparr>server = s2,
                calls = calls w @ [CallUpdate ctx u1 (DeploymentUpdate_of plan params tags),
                                   CallGet ctx u1]\<rparr>)
          \<and> \<not> HasError (Diagnostics resp1)
          \<and> State resp1 = Some m1 \<and> state_matches_response L d1 js1 m1))"
proof (intro conjI impI)
  assume "Read L r ctx rreq resp w = (Returned resp', w') \<and> \<not> HasError (Diagnostics resp')"
  then show "\<exists>pc c err u d js m.
          client r = Some pc
          \<and> pc_Deployments pc (ValueUUID L (m_AccountID (snd (rr_State rreq))))
               (ValueUUID L (m_WorkspaceID (snd (rr_State rreq)))) = (Some c, err)
          \<and> uuid_Parse L (ValueString (m_ID (snd (rr_State rreq)))) = Inr u
          \<and> dcl_Get c ctx u (server w) = ((Some d, None), server w')
          \<and> json_Marshal L (d_Parameters d) = Inr js
          \<and> State resp' = Some m \<and> state_matches_response L d js m"
    by (auto simp: Read_def Let_def client_Get_def HasError_add_id_parse_error
             simp del: Append.simps(2)
             split: prod.splits if_splits option.splits sum.splits
             dest!: Read_refresh_success)
next
  assume "Update L r ctx ureq resp w = (Returned resp'', w'')
            \<and> \<not> HasError (Diagnostics resp'')"
  then show "\<exists>pc c err u p s1 d js m.
          client r = Some pc
          \<and> pc_Deployments pc (ValueUUID L (m_AccountID (snd (ur_Plan ureq))))
               (ValueUUID L (m_WorkspaceID (snd (ur_Plan ureq)))) = (Some c, err)
          \<and> uuid_Parse L (ValueString (m_ID (snd (ur_Plan ureq)))) = Inr u
          \<and> dcl_Update c ctx u p (server w) = (None, s1)
          \<and> dcl_Get c ctx u s1 = ((Some d, None), server w'')
          \<and> json_Marshal L (d_Parameters d) = Inr js
          \<and> State resp'' = Some m \<and> state_matches_response L d js m"
    by (auto simp: Update_def Let_def client_Get_def client_Update_def
                   HasError_add_id_parse_error HasError_AddError
             simp del: Append.simps(2)
             split: prod.splits if_splits option.splits sum.splits
             dest!: Update_refresh_success)
       blast
next
  assume "\<not> HasError (Diagnostics resp) \<and> \<not> HasError diags0 \<and> client r = Some pc0
        \<and> pc_Deployments pc0 (ValueUUID L (m_AccountID model))
             (ValueUUID L (m_WorkspaceID model)) = (Some c0, None)
        \<and> \<not> IsNull (m_ID model)
        \<and> uuid_Parse L (ValueString (m_ID model)) = Inr u0
        \<and> dcl_Get c0 ctx u0 (server w) = ((Some d0, None), s0)
        \<and> \<not> HasError (snd (types_ListValueFrom L (d_Tags d0)))
        \<and> json_Marshal L (d_Parameters d0) = Inr js0"
  then show "\<exists>resp0 m0.
          Read L r ctx \<lparr>rr_State = (diags0, model)\<rparr> resp w
            = (Returned resp0, \<lparr>server = s0, calls = calls w @ [CallGet ctx u0]\<rparr>)
          \<and> \<not> HasError (Diagnostics resp0)
          \<and> State resp0 = Some m0 \<and> state_matches_response L d0 js0 m0"
    by (auto simp: Read_def Read_refresh_def Let_def client_Get_def HasError_Append
                   HasError_Nil add_client_error_def copyDeploymentToModel_def State_Set_def
                   state_matches_response_def
             simp del: Append.simps(2) split: prod.splits)
next
  assume "\<not> HasError (Diagnostics resp) \<and> \<not> HasError diags1 \<and> client r = Some pc1
        \<and> pc_Deployments pc1 (ValueUUID L (m_AccountID plan))
             (ValueUUID L (m_WorkspaceID plan)) = (Some c1, None)
        \<and> uuid_Parse L (ValueString (m_ID plan)) = Inr u1
        \<and> List_ElementsAs L (m_Tags plan) = (tdiags, tags) \<and> \<not> HasError tdiags
        \<and> Normalized_Unmarshal L (m_Parameters plan) = (pdiags, params) \<and> \<not> HasError pdiags
        \<and> dcl_Update c1 ctx u1 (DeploymentUpdate_of plan params tags) (server w) = (None, s1)
        \<and> dcl_Get c1 ctx u1 s1 = ((Some d1, None), s2)
        \<and> \<not> HasError (snd (types_ListValueFrom L (d_Tags d1)))
        \<and> json_Marshal L (d_Parameters d1) = Inr js1"
  then show "\<exists>resp1 m1.
          Update L r ctx \<lparr>ur_Plan = (diags1, plan)\<rparr> resp w
            = (Returned resp1,
               \<lparr>server = s2,
                calls = calls w @ [CallUpdate ctx u1 (DeploymentUpdate_of plan params tags),
                                   CallGet ctx u1]\<rparr>)
          \<and> \<not> HasError (Diagnostics resp1)
          \<and> State resp1 = Some m1 \<and> state_matches_response L d1 js1 m1"
    by (auto simp: Update_def Update_refresh_def Let_def client_Get_def client_Update_def
                   HasError_Append HasError_Nil add_client_error_def copyDeploymentToModel_def
                   State_Set_def state_matches_response_def
             simp del: Append.simps(2) split: prod.splits)
qed


text \<open>
  A read and an update of the sample deployment. For the read the state said \<open>weekly\<close>,
  the remote system says \<open>nightly\<close>, and the state takes the answer of the remote
  system. The update sends \<open>weekly\<close>, and the state takes the version \<open>1\<close> that only
  the remote system knows.
\<close>

theorem state_matches_response_after_refresh_witness:
  "(\<exists>resp' m. fst (Read example_lib example_resource 7 \<lparr>rr_State = ([], example_model)\<rparr>
                 empty_response example_world) = Returned resp'
     \<and> State resp' = Some m \<and> m_Description m = Known ''nightly''
     \<and> m_Tags m = Known [Known ''prod''] \<and> m_Parameters m = Known ''{}'')
   \<and> (\<exists>resp'' m. Update example_lib example_resource 7 \<lparr>ur_Plan = ([], example_model)\<rparr>
                 empty_response example_world
        = (Returned resp'',
           \<lparr>server = Some (example_deployment\<lparr>d_Description := ''weekly''\<rparr>),
            calls = [CallUpdate 7 example_uuid (DeploymentUpdate_of example_model [] [''prod'']),
                     CallGet 7 example_uuid]\<rparr>)
     \<and> \<not> HasError (Diagnostics resp'')
     \<and> State resp'' = Some m \<and> m_Description m = Known ''weekly''
     \<and> m_Version m = Known ''1'' \<and> m_Parameters m = Known ''{}'')"
proof (intro conjI)
  let ?req = "\<lparr>rr_State = ([], example_model)\<rparr>"
  obtain out w' where run:
    "Read example_lib example_resource 7 ?req empty_response example_world = (out, w')"
    by (cases "Read example_lib example_resource 7 ?req empty_response example_world")
  have "\<exists>resp'. out = Returned resp' \<and> \<not> HasError (Diagnostics resp')"
    using run by (auto simp: Read_def sample_defs step_defs)
  then obtain resp' where r: "out = Returned resp'" "\<not> HasError (Diagnostics resp')"
    by blast
  have "\<exists>pc c err u d js m.
          client example_resource = Some pc
          \<and> pc_Deployments pc (ValueUUID example_lib (m_AccountID (snd (rr_State ?req))))
               (ValueUUID example_lib (m_WorkspaceID (snd (rr_State ?req)))) = (Some c, err)
          \<and> uuid_Parse example_lib (ValueString (m_ID (snd (rr_State ?req)))) = Inr u
          \<and> dcl_Get c 7 u (server example_world) = ((Some d, None), server w')
          \<and> json_Marshal example_lib (d_Parameters d) = Inr js
          \<and> State resp' = Some m \<and> state_matches_response example_lib d js m"
    using state_matches_response_after_refresh [where L = example_lib
          and r = example_resource and ctx = 7 and rreq = ?req
          and resp = empty_response and w = example_world and resp' = resp' and w' = w',
        THEN conjunct1, THEN mp]
      run r by simp
  then obtain m where "State resp' = Some m"
    "state_matches_response example_lib example_deployment ''{}'' m"
    by (auto simp: example_resource_def example_client_def example_world_def example_lib_def
          example_deployment_def split: if_splits)
  then show "\<exists>resp' m. fst (Read example_lib example_resource 7 ?req
                 empty_response example_world) = Returned resp'
     \<and> State resp' = Some m \<and> m_Description m = Known ''nightly''
     \<and> m_Tags m = Known [Known ''prod''] \<and> m_Parameters m = Known ''{}''"
    using run r
    by (auto simp: state_matches_response_def example_deployment_def example_lib_def)
next
  let ?d = "example_deployment\<lparr>d_Description := ''weekly''\<rparr>"
  let ?pc = "\<lparr>pc_Deployments = (\<lambda>a w. (Some example_client, None))\<rparr>
               :: Deployment option PrefectClient"
  have h: "\<not> HasError (Diagnostics empty_response) \<and> \<not> HasError []
        \<and> client example_resource = Some ?pc
        \<and> pc_Deployments ?pc (ValueUUID example_lib (m_AccountID example_model))
             (ValueUUID example_lib (m_WorkspaceID example_model)) = (Some example_client, None)
        \<and> uuid_Parse example_lib (ValueString (m_ID example_model)) = Inr example_uuid
        \<and> List_ElementsAs example_lib (m_Tags example_model) = ([], [''prod''])
        \<and> \<not> HasError []
        \<and> Normalized_Unmarshal example_lib (m_Parameters example_model) = ([], [])
        \<and> \<not> HasError []
        \<and> dcl_Update example_client 7 example_uuid
             (DeploymentUpdate_of example_model [] [''prod'']) (server example_world)
            = (None, Some ?d)
        \<and> dcl_Get example_client 7 example_uuid (Some ?d) = ((Some ?d, None), Some ?d)
        \<and> \<not> HasError (snd (types_ListValueFrom example_lib (d_Tags ?d)))
        \<and> json_Marshal example_lib (d_Parameters ?d) = Inr ''{}''"
    by (simp add: sample_defs step_defs)
  have "\<exists>resp1 m1.
          Update example_lib example_resource 7 \<lparr>ur_Plan = ([], example_model)\<rparr>
              empty_response example_world
            = (Returned resp1,
               \<lparr>server = Some ?d,
                calls = calls example_world
                  @ [CallUpdate 7 example_uuid (DeploymentUpdate_of example_model [] [''prod'']),
                     CallGet 7 example_uuid]\<rparr>)
          \<and> \<not> HasError (Diagnostics resp1)
          \<and> State resp1 = Some m1 \<and> state_matches_response example_lib ?d ''{}'' m1"
    using state_matches_response_after_refresh [where L = example_lib
          and r = example_resource and ctx = 7 and resp = empty_response
          and w = example_world and ?diags1.0 = "[]" and plan = example_model
          and ?pc1.0 = ?pc and ?c1.0 = example_client and ?u1.0 = example_uuid
          and tdiags = "[]" and tags = "[''prod'']" and pdiags = "[]" and params = "[]"
          and ?s1.0 = "Some ?d" and ?d1.0 = ?d and ?s2.0 = "Some ?d" and ?js1.0 = "''{}''",
        THEN conjunct2, THEN conjunct2, THEN conjunct2, THEN mp, OF h] .
  then show "\<exists>resp'' m. Update example_lib example_resource 7
                 \<lparr>ur_Plan = ([], example_model)\<rparr> empty_response example_world
        = (Returned resp'',
           \<lparr>server = Some ?d,
            calls = [CallUpdate 7 example_uuid (DeploymentUpdate_of example_model [] [''prod'']),
                     CallGet 7 example_uuid]\<rparr>)
     \<and> \<not> HasError (Diagnostics resp'')
     \<and> State resp'' = Some m \<and> m_Description m = Known ''weekly''
     \<and> m_Version m = Known ''1'' \<and> m_Parameters m = Known ''{}''"
    by (auto simp: state_matches_response_def example_deployment_def example_world_def)
qed
section \<open>Errors of the accounts client\<close>

text \<open>
  Claim C3, as stated, fails: \<open>Get\<close> accepts the status 200 only, so a response with
  the status 204, which is a 2xx status, received without a transport failure and without
  any JSON step, is returned as an error.
\<close>

theorem AccountsClient_Get_no_content_counterexample:
  "fst (AccountsClient_Get example_lib example_net (answering 204 ''204 No Content'' [])
          7 example_uuid empty_wire)
     = Returned (Inl (ErrorNew ''status code 204 No Content''))
   \<and> (200::int) \<le> 204 \<and> (204::int) < 300"
  by (simp add: AccountsClient_Get_def answering_def example_net_def empty_wire_def
        http_NewRequestWithContext_def hc_Do_def StatusOK_def Let_def)

text \<open>
  Claim C3, amended. With an HTTP client in place, \<open>Get\<close> returns an error exactly
  when the request cannot be built, the transport fails, the status code is not 200, or the
  body does not decode; \<open>Update\<close> exactly when the data does not encode, the request
  cannot be built, the transport fails, or the status code is neither 200 nor 204;
  \<open>Delete\<close> exactly when the request cannot be built, the transport fails, or the
  status code is neither 200 nor 204. The error returned wraps the underlying failure under
  a fixed prefix, or, for a status, carries the status text of the response. At most one
  request is sent: nothing is retried or recovered.
\<close>

theorem AccountsClient_errors:
  assumes "hc c = Some h"
  shows "((\<exists>e. fst (AccountsClient_Get L N c ctx accountID x) = Returned (Inl e)) \<longleftrightarrow>
            NewRequest_error N ctx ''GET'' (accounts_url L c accountID) \<noteq> None
            \<or> (\<exists>e. fst (Do h (accounts_request L N c ctx ''GET'' accountID None) (remote x))
                    = Inl e)
            \<or> (\<exists>resp. fst (Do h (accounts_request L N c ctx ''GET'' accountID None) (remote x))
                      = Inr resp
                  \<and> (rs_StatusCode resp \<noteq> 200
                       \<or> (\<exists>e. json_Decode N (rs_Body resp) = Inl e))))
       \<and> ((\<exists>e. fst (AccountsClient_Update L N c ctx accountID data x) = Returned (Some e)) \<longleftrightarrow>
            (\<exists>e. json_Encode N data = Inl e)
            \<or> (\<exists>buf. json_Encode N data = Inr buf
                  \<and> (NewRequest_error N ctx ''PATCH'' (accounts_url L c accountID) \<noteq> None
                       \<or> (\<exists>e. fst (Do h (accounts_request L N c ctx ''PATCH'' accountID
                                        (Some buf)) (remote x)) = Inl e)
                       \<or> (\<exists>resp. fst (Do h (accounts_request L N c ctx ''PATCH'' accountID
                                          (Some buf)) (remote x)) = Inr resp
                             \<and> rs_StatusCode resp \<noteq> 200 \<and> rs_StatusCode resp \<noteq> 204))))
       \<and> ((\<exists>e. fst (AccountsClient_Delete L N c ctx accountID x) = Returned (Some e)) \<longleftrightarrow>
            NewRequest_error N ctx ''DELETE'' (accounts_url L c accountID) \<noteq> None
            \<or> (\<exists>e. fst (Do h (accounts_request L N c ctx ''DELETE'' accountID None) (remote x))
                    = Inl e)
            \<or> (\<exists>resp. fst (Do h (accounts_request L N c ctx ''DELETE'' accountID None)
                              (remote x)) = Inr resp
                  \<and> rs_StatusCode resp \<noteq> 200 \<and> rs_StatusCode resp \<noteq> 204))
       \<and> (fst (AccountsClient_Get L N c ctx accountID x) = Returned (Inl e1) \<longrightarrow>
            (\<exists>u. e1 = ErrorWrap ''error creating request: '' u
                  \<and> NewRequest_error N ctx ''GET'' (accounts_url L c accountID) = Some u)
            \<or> (\<exists>u. e1 = ErrorWrap ''http error: '' u
                  \<and> fst (Do h (accounts_request L N c ctx ''GET'' accountID None) (remote x))
                      = Inl u)
            \<or> (\<exists>resp. e1 = ErrorNew (''status code '' @ rs_Status resp)
                  \<and> fst (Do h (accounts_request L N c ctx ''GET'' accountID None) (remote x))
                      = Inr resp)
            \<or> (\<exists>u resp. e1 = ErrorWrap ''failed to decode response: '' u
                  \<and> fst (Do h (accounts_request L N c ctx ''GET'' accountID None) (remote x))
                      = Inr resp
                  \<and> json_Decode N (rs_Body resp) = Inl u))
       \<and> (fst (AccountsClient_Update L N c ctx accountID data x) = Returned (Some e2) \<longrightarrow>
            (\<exists>u. e2 = ErrorWrap ''failed to encode data: '' u \<and> json_Encode N data = Inl u)
            \<or> (\<exists>u. e2 = ErrorWrap ''error creating request: '' u
                  \<and> NewRequest_error N ctx ''PATCH'' (accounts_url L c accountID) = Some u)
            \<or> (\<exists>u buf. e2 = ErrorWrap ''http error: '' u
                  \<and> fst (Do h (accounts_request L N c ctx ''PATCH'' accountID (Some buf))
                           (remote x)) = Inl u)
            \<or> (\<exists>resp buf. e2 = ErrorNew (''status code '' @ rs_Status resp)
                  \<and> fst (Do h (accounts_request L N c ctx ''PATCH'' accountID (Some buf))
                           (remote x)) = Inr resp))
       \<and> (fst (AccountsClient_Delete L N c ctx accountID x) = Returned (Some e3) \<longrightarrow>
            (\<exists>u. e3 = ErrorWrap ''error creating request: '' u
                  \<and> NewRequest_error N ctx ''DELETE'' (accounts_url L c accountID) = Some u)
            \<or> (\<exists>u. e3 = ErrorWrap ''http error: '' u
                  \<and> fst (Do h (accounts_request L N c ctx ''DELETE'' accountID None)
                           (remote x)) = Inl u)
            \<or> (\<exists>resp. e3 = ErrorNew (''status code '' @ rs_Status resp)
                  \<and> fst (Do h (accounts_request L N c ctx ''DELETE'' accountID None)
                           (remote x)) = Inr resp))
       \<and> (sent (snd (AccountsClient_Get L N c ctx accountID x)) = sent x
            \<or> (\<exists>req. sent (snd (AccountsClient_Get L N c ctx accountID x)) = sent x @ [req]))
       \<and> (sent (snd (AccountsClient_Update L N c ctx accountID data x)) = sent x
            \<or> (\<exists>req. sent (snd (AccountsClient_Update L N c ctx accountID data x))
                        = sent x @ [req]))
       \<and> (sent (snd (AccountsClient_Delete L N c ctx accountID x)) = sent x
            \<or> (\<exists>req. sent (snd (AccountsClient_Delete L N c ctx accountID x))
                        = sent x @ [req]))"
proof (intro conjI)
  note g = AccountsClient_Get_result [OF assms, of L N ctx accountID x]
  note u = AccountsClient_Update_result [OF assms, of L N ctx accountID data x]
  note d = AccountsClient_Delete_result [OF assms, of L N ctx accountID x]
  show "(\<exists>e. fst (AccountsClient_Get L N c ctx accountID x) = Returned (Inl e)) \<longleftrightarrow>
            NewRequest_error N ctx ''GET'' (accounts_url L c accountID) \<noteq> None
            \<or> (\<exists>e. fst (Do h (accounts_request L N c ctx ''GET'' accountID None) (remote x))
                    = Inl e)
            \<or> (\<exists>resp. fst (Do h (accounts_request L N c ctx ''GET'' accountID None) (remote x))
                      = Inr resp
                  \<and> (rs_StatusCode resp \<noteq> 200
                       \<or> (\<exists>e. json_Decode N (rs_Body resp) = Inl e)))"
    unfolding g by (auto split: option.splits sum.splits if_splits)
  show "(\<exists>e. fst (AccountsClient_Update L N c ctx accountID data x) = Returned (Some e)) \<longleftrightarrow>
            (\<exists>e. json_Encode N data = Inl e)
            \<or> (\<exists>buf. json_Encode N data = Inr buf
                  \<and> (NewRequest_error N ctx ''PATCH'' (accounts_url L c accountID) \<noteq> None
                       \<or> (\<exists>e. fst (Do h (accounts_request L N c ctx ''PATCH'' accountID
                                        (Some buf)) (remote x)) = Inl e)
                       \<or> (\<exists>resp. fst (Do h (accounts_request L N c ctx ''PATCH'' accountID
                                          (Some buf)) (remote x)) = Inr resp
                             \<and> rs_StatusCode resp \<noteq> 200 \<and> rs_StatusCode resp \<noteq> 204)))"
    unfolding u by (auto split: option.splits sum.splits if_splits)
  show "(\<exists>e. fst (AccountsClient_Delete L N c ctx accountID x) = Returned (Some e)) \<longleftrightarrow>
            NewRequest_error N ctx ''DELETE'' (accounts_url L c accountID) \<noteq> None
            \<or> (\<exists>e. fst (Do h (accounts_request L N c ctx ''DELETE'' accountID None) (remote x))
                    = Inl e)
            \<or> (\<exists>resp. fst (Do h (accounts_request L N c ctx ''DELETE'' accountID None)
                              (remote x)) = Inr resp
                  \<and> rs_StatusCode resp \<noteq> 200 \<and> rs_StatusCode resp \<noteq> 204)"
    unfolding d by (auto split: option.splits sum.splits if_splits)
  show "fst (AccountsClient_Get L N c ctx accountID x) = Returned (Inl e1) \<longrightarrow>
            (\<exists>u. e1 = ErrorWrap ''error creating request: '' u
                  \<and> NewRequest_error N ctx ''GET'' (accounts_url L c accountID) = Some u)
            \<or> (\<exists>u. e1 = ErrorWrap ''http error: '' u
                  \<and> fst (Do h (accounts_request L N c ctx ''GET'' accountID None) (remote x))
                      = Inl u)
            \<or> (\<exists>resp. e1 = ErrorNew (''status code '' @ rs_Status resp)
                  \<and> fst (Do h (accounts_request L N c ctx ''GET'' accountID None) (remote x))
                      = Inr resp)
            \<or> (\<exists>u resp. e1 = ErrorWrap ''failed to decode response: '' u
                  \<and> fst (Do h (accounts_request L N c ctx ''GET'' accountID None) (remote x))
                      = Inr resp
                  \<and> json_Decode N (rs_Body resp) = Inl u)"
    unfolding g by (auto split: option.splits sum.splits if_splits)
  show "fst (AccountsClient_Update L N c ctx accountID data x) = Returned (Some e2) \<longrightarrow>
            (\<exists>u. e2 = ErrorWrap ''failed to encode data: '' u \<and> json_Encode N data = Inl u)
            \<or> (\<exists>u. e2 = ErrorWrap ''error creating request: '' u
                  \<and> NewRequest_error N ctx ''PATCH'' (accounts_url L c accountID) = Some u)
            \<or> (\<exists>u buf. e2 = ErrorWrap ''http error: '' u
                  \<and> fst (Do h (accounts_request L N c ctx ''PATCH'' accountID (Some buf))
                           (remote x)) = Inl u)
            \<or> (\<exists>resp buf. e2 = ErrorNew (''status code '' @ rs_Status resp)
                  \<and> fst (Do h (accounts_request L N c ctx ''PATCH'' accountID (Some buf))
                           (remote x)) = Inr resp)"
    unfolding u by (auto split: option.splits sum.splits if_splits)
  show "fst (AccountsClient_Delete L N c ctx accountID x) = Returned (Some e3) \<longrightarrow>
            (\<exists>u. e3 = ErrorWrap ''error creating request: '' u
                  \<and> NewRequest_error N ctx ''DELETE'' (accounts_url L c accountID) = Some u)
            \<or> (\<exists>u. e3 = ErrorWrap ''http error: '' u
                  \<and> fst (Do h (accounts_request L N c ctx ''DELETE'' accountID None)
                           (remote x)) = Inl u)
            \<or> (\<exists>resp. e3 = ErrorNew (''status code '' @ rs_Status resp)
                  \<and> fst (Do h (accounts_request L N c ctx ''DELETE'' accountID None)
                           (remote x)) = Inr resp)"
    unfolding d by (auto split: option.splits sum.splits if_splits)
  show "sent (snd (AccountsClient_Get L N c ctx accountID x)) = sent x
            \<or> (\<exists>req. sent (snd (AccountsClient_Get L N c ctx accountID x)) = sent x @ [req])"
    using AccountsClient_Get_sent [of L N c ctx accountID x] by auto
  show "sent (snd (AccountsClient_Update L N c ctx accountID data x)) = sent x
            \<or> (\<exists>req. sent (snd (AccountsClient_Update L N c ctx accountID data x))
                        = sent x @ [req])"
    using AccountsClient_Update_sent [of L N c ctx accountID data x] by auto
  show "sent (snd (AccountsClient_Delete L N c ctx accountID x)) = sent x
            \<or> (\<exists>req. sent (snd (AccountsClient_Delete L N c ctx accountID x))
                        = sent x @ [req])"
    using AccountsClient_Delete_sent [of L N c ctx accountID x] by auto
qed

text \<open>A response with the status 500 is an error of \<open>Get\<close>.\<close>

theorem AccountsClient_errors_witness:
  "(\<exists>e. fst (AccountsClient_Get example_lib example_net
             (answering 500 ''500 Internal Server Error'' []) 7 example_uuid empty_wire)
          = Returned (Inl e))
   \<and> hc (answering 500 ''500 Internal Server Error'' [])
       = Some \<lparr>Do = (\<lambda>req r. (Inr \<lparr>rs_StatusCode = 500,
                  rs_Status = ''500 Internal Server Error'', rs_Body = []\<rparr>, r))\<rparr>"
proof -
  have h: "hc (answering 500 ''500 Internal Server Error'' [])
       = Some \<lparr>Do = (\<lambda>req r. (Inr \<lparr>rs_StatusCode = 500,
                  rs_Status = ''500 Internal Server Error'', rs_Body = []\<rparr>, r))\<rparr>"
    by (simp add: answering_def)
  show ?thesis
    using AccountsClient_errors [OF h, where L = example_lib and N = example_net and ctx = 7
        and accountID = example_uuid and x = empty_wire, THEN conjunct1] h
    by simp
qed

end
